theory Spec2Isabelle
  imports Main "HOL-Library.Word"
begin

section \<open>Data of cmd/getPreconf.go\<close>

text \<open>
  The program's machine integers are Go's \<open>int64\<close> and \<open>uint64\<close>: both are 64-bit words;
  \<open>sint\<close> reads an \<open>int64\<close>, \<open>unat\<close> a \<open>uint64\<close>, and the conversion \<open>int64(x)\<close> of a
  \<open>uint64\<close> keeps the bits.
\<close>

type_synonym int64 = "64 word"
type_synonym uint64 = "64 word"

text \<open>
  A \<open>types.Transaction\<close>, as far as the program looks at it: the text of \<open>Hash().String()\<close>
  and the signed payload. A \<open>*types.Transaction\<close> is a \<open>transaction option\<close>, \<open>None\<close> the
  nil pointer.
\<close>

record transaction =
  txHash :: string
  txPayload :: string

text \<open>
  The \<open>input interface{}\<close> of \<open>sendPreconfBid\<close>: a string, a \<open>*types.Transaction\<close>
  (possibly nil), or a value of any other dynamic type (named by the type's name).
\<close>

datatype reference =
    RefString string
  | RefTx "transaction option"
  | RefOther string

text \<open>The first argument of \<open>SendBid\<close>: \<open>[]string\<close> or \<open>[]*types.Transaction\<close>.\<close>

datatype bid_input = Hashes "string list" | Txs "transaction list"

record bid =
  bidInput :: bid_input
  bidAmount :: string
  bidBlock :: int64
  decayStart :: int64
  decayEnd :: int64

datatype level = Info | Warn | Error | Crit

text \<open>
  What the program does to the outside, in order: log lines (level and message), sleeps
  (a \<open>time.Duration\<close>, nanoseconds), seeding of the global random source, and the calls to
  the collaborators.
\<close>

datatype event =
    Log level string
  | Sleep int64
  | RandSeed uint64
  | SendBid bid
  | SendBundle string "transaction option" uint64
  | CallSelfETHTransfer int uint64
  | CallExecuteBlobTransaction int uint64
  | Authenticate string
  | NewBidderClient string
  | DialRPC string int64
  | DialWS string
  | SubscribeNewHead

text \<open>
  How a piece of the program ends: it returns, it panics (a nil-pointer dereference), or the
  process exits (\<open>log.Crit\<close> logs and calls \<open>os.Exit(1)\<close>). \<open>Blocked\<close> is the event
  loop waiting in its \<open>select\<close> once the events delivered so far are used up.
\<close>

datatype status = Returned | Panicked | Exited | Blocked

section \<open>Time\<close>

text \<open>
  An instant of the wall clock is the number of nanoseconds since the Unix epoch.
  \<open>UnixNano\<close> and \<open>UnixMilli\<close> give an \<open>int64\<close>; \<open>UnixMilli\<close> rounds down.
\<close>

definition unixNano :: "int \<Rightarrow> int64" where
  "unixNano t = word_of_int t"

definition unixMilli :: "int \<Rightarrow> int64" where
  "unixMilli t = word_of_int (t div 1000000)"

definition second :: int64 where
  "second = 1000000000"

text \<open>\<open>Duration.Milliseconds\<close>: the duration in nanoseconds, divided by \<open>1e6\<close> towards zero.\<close>

definition milliseconds :: "int64 \<Rightarrow> int64" where
  "milliseconds d = word_of_int (sgn (sint d) * (\<bar>sint d\<bar> div 1000000))"

section \<open>Strings\<close>

text \<open>\<open>strings.TrimPrefix\<close>: \<open>s\<close> without the leading \<open>p\<close>, or \<open>s\<close> itself.\<close>

definition trimPrefix :: "string \<Rightarrow> string \<Rightarrow> string" where
  "trimPrefix s p =
     (if length p \<le> length s \<and> take (length p) s = p then drop (length p) s else s)"

text \<open>\<open>fmt.Sprintf("%d", x)\<close> of an \<open>int64\<close>: the decimal digits, after a minus sign if negative.\<close>

definition digitChar :: "nat \<Rightarrow> char" where
  "digitChar d = ''0123456789'' ! d"

function decimal :: "nat \<Rightarrow> string" where
  "decimal n = (if n < 10 then [digitChar n] else decimal (n div 10) @ [digitChar (n mod 10)])"
  by pat_completeness auto
termination
  by (relation "measure id") auto

definition sprintf_d :: "int64 \<Rightarrow> string" where
  "sprintf_d x = (if sint x < 0 then CHR ''-'' # decimal (nat (- sint x)) else decimal (nat (sint x)))"

section \<open>sendPreconfBid\<close>

text \<open>
  What one call reads from outside: the wall clock at \<open>rand.Seed(uint64(time.Now().UnixNano()))\<close>,
  the wall clock at \<open>currentTime := time.Now().UnixMilli()\<close>, and whether \<open>SendBid\<close> returns
  an error.
\<close>

record bid_env =
  nowSeed :: int
  nowBid :: int
  sendErr :: bool

text \<open>
  The amount is \<open>int64((0.0002 + rand.Float64() * (0.001 - 0.0002)) * 1e18)\<close>, a float64
  computation on the first draw of the freshly seeded source of \<open>golang.org/x/exp/rand\<close>.
  It is a function of the seed, taken as the parameter \<open>randomWei\<close>.

  The type switch has three arms. In the \<open>*types.Transaction\<close> arm the arguments of
  \<open>log.Info\<close> call \<open>Hash()\<close> on the transaction before \<open>SendBid\<close>; \<open>Hash\<close> reads a field
  of its receiver, so a nil pointer panics there.
\<close>

definition sendPreconfBid ::
  "(uint64 \<Rightarrow> int64) \<Rightarrow> bid_env \<Rightarrow> reference \<Rightarrow> int64 \<Rightarrow> event list \<times> status" where
  "sendPreconfBid randomWei env input blockNumber =
     (let seed = unixNano (nowSeed env);
          randomWeiAmount = randomWei seed;
          amount = sprintf_d randomWeiAmount;
          currentTime = unixMilli (nowBid env);
          dStart = currentTime;
          dEnd = currentTime + milliseconds (36 * second);
          sent = (if sendErr env then Log Warn ''failed to send bid''
                  else Log Info ''sent preconfirmation bid'')
      in case input of
           RefString v \<Rightarrow>
             (let h = trimPrefix v ''0x'' in
              ([RandSeed seed,
                Log Info ''sending bid with transaction hash'',
                SendBid \<lparr>bidInput = Hashes [h], bidAmount = amount, bidBlock = blockNumber,
                         decayStart = dStart, decayEnd = dEnd\<rparr>,
                sent], Returned))
         | RefTx None \<Rightarrow> ([RandSeed seed], Panicked)
         | RefTx (Some tx) \<Rightarrow>
             ([RandSeed seed,
               Log Info ''sending bid with tx payload'',
               SendBid \<lparr>bidInput = Txs [tx], bidAmount = amount, bidBlock = blockNumber,
                        decayStart = dStart, decayEnd = dEnd\<rparr>,
               sent], Returned)
         | RefOther ty \<Rightarrow>
             ([RandSeed seed,
               Log Warn ''unsupported input type, must be string or *types.Transaction''],
              Returned))"

text \<open>The bids handed to \<open>SendBid\<close> in a trace, in order.\<close>

fun bidsOf :: "event list \<Rightarrow> bid list" where
  "bidsOf [] = []"
| "bidsOf (SendBid b # es) = b # bidsOf es"
| "bidsOf (e # es) = bidsOf es"

section \<open>Connections\<close>

type_synonym client = nat
type_synonym subscription = nat

text \<open>
  \<open>time.Duration(math.Pow(2, float64(i)))\<close>: the power of two is exact in float64, and the
  conversion to \<open>int64\<close> is exact up to \<open>2^62\<close>; beyond, Go leaves the result of the
  conversion to the implementation (the parameter \<open>ovf\<close>). The product with 10 wraps.
\<close>

definition pow2Duration :: "(nat \<Rightarrow> int64) \<Rightarrow> nat \<Rightarrow> int64" where
  "pow2Duration ovf i = (if i < 63 then 2 ^ i else ovf i)"

definition backoff :: "(nat \<Rightarrow> int64) \<Rightarrow> nat \<Rightarrow> int64" where
  "backoff ovf i = 10 * pow2Duration ovf i"

text \<open>
  The loop of \<open>connectRPCClientWithRetries\<close>, from its counter \<open>i\<close>. \<open>dial i\<close> is what
  the dial of round \<open>i\<close> gives: a client, or \<open>None\<close> for an error.
\<close>

function rpcLoop ::
  "(nat \<Rightarrow> int64) \<Rightarrow> (nat \<Rightarrow> client option) \<Rightarrow> string \<Rightarrow> int \<Rightarrow> int64 \<Rightarrow> nat
     \<Rightarrow> event list \<times> client option" where
  "rpcLoop ovf dial ep maxRetries timeout i =
     (if int i < maxRetries then
        (case dial i of
           Some c \<Rightarrow> ([DialRPC ep timeout], Some c)
         | None \<Rightarrow>
             (let (evs, r) = rpcLoop ovf dial ep maxRetries timeout (Suc i)
              in ([DialRPC ep timeout,
                   Log Warn ''failed to connect to RPC client, retrying...'',
                   Sleep (backoff ovf i)] @ evs, r)))
      else ([Log Error ''failed to connect to RPC client after retries''], None))"
  by pat_completeness auto
termination
  by (relation "measure (\<lambda>(ovf, dial, ep, maxRetries, timeout, i). nat (maxRetries - int i))") auto

declare rpcLoop.simps [simp del]

definition connectRPCClientWithRetries ::
  "(nat \<Rightarrow> int64) \<Rightarrow> (nat \<Rightarrow> client option) \<Rightarrow> string \<Rightarrow> int \<Rightarrow> int64
     \<Rightarrow> event list \<times> client option" where
  "connectRPCClientWithRetries ovf dial ep maxRetries timeout =
     rpcLoop ovf dial ep maxRetries timeout 0"

text \<open>
  \<open>connectWSClient\<close> dials until a dial succeeds, with no bound: it may never return
  (\<open>None\<close>). \<open>dial k\<close> is the outcome of the program's \<open>k\<close>-th call of \<open>NewGethClient\<close>;
  the count of calls made goes in and comes out. The error it returns is always nil.
\<close>

partial_function (option) connectWSClient ::
  "(nat \<Rightarrow> client option) \<Rightarrow> string \<Rightarrow> nat
     \<Rightarrow> (event list \<times> (client option \<times> string option) \<times> nat) option" where
  "connectWSClient dial ep k =
     (case dial k of
        Some c \<Rightarrow> Some ([DialWS ep], (Some c, None), Suc k)
      | None \<Rightarrow>
          Option.bind (connectWSClient dial ep (Suc k))
            (\<lambda>r. Some ([DialWS ep,
                         Log Warn ''failed to connect to websocket client'',
                         Sleep (10 * second)] @ fst r, snd r)))"

definition before :: "event list \<Rightarrow> event list \<times> 'a \<Rightarrow> event list \<times> 'a" where
  "before evs r = (evs @ fst r, snd r)"

text \<open>
  The loop of \<open>reconnectWSClient\<close>, from its counter \<open>i\<close>; \<open>subscribe j\<close> is the outcome
  of the program's \<open>j\<close>-th call of \<open>SubscribeNewHead\<close>. After the loop, \<open>log.Crit\<close> ends
  the process.
\<close>

function reconnectLoop ::
  "(nat \<Rightarrow> client option) \<Rightarrow> (nat \<Rightarrow> subscription option) \<Rightarrow> string \<Rightarrow> nat \<Rightarrow> nat \<Rightarrow> nat
     \<Rightarrow> (event list \<times> status \<times> (client option \<times> subscription option) \<times> nat \<times> nat) option" where
  "reconnectLoop dial subscribe ep i k j =
     (if i < 10 then
        (case connectWSClient dial ep k of
           None \<Rightarrow> None
         | Some (evs, (wsClient, err), k') \<Rightarrow>
             (if err = None then
                (case subscribe j of
                   Some sub \<Rightarrow>
                     Some (evs @ [Log Info ''(ws) geth client reconnected'', SubscribeNewHead],
                           Returned, (wsClient, Some sub), k', Suc j)
                 | None \<Rightarrow>
                     map_option
                       (before (evs @ [Log Info ''(ws) geth client reconnected'', SubscribeNewHead,
                                       Log Warn ''failed to reconnect WebSocket client, retrying...'',
                                       Sleep (5 * second)]))
                       (reconnectLoop dial subscribe ep (Suc i) k' (Suc j)))
              else
                map_option
                  (before (evs @ [Log Warn ''failed to reconnect WebSocket client, retrying...'',
                                  Sleep (5 * second)]))
                  (reconnectLoop dial subscribe ep (Suc i) k' j)))
      else Some ([Log Crit ''failed to reconnect WebSocket client after retries''],
                 Exited, (None, None), k, j))"
  by pat_completeness auto
termination
  by (relation "measure (\<lambda>(dial, subscribe, ep, i, k, j). 10 - i)") auto

declare reconnectLoop.simps [simp del]

definition reconnectWSClient ::
  "(nat \<Rightarrow> client option) \<Rightarrow> (nat \<Rightarrow> subscription option) \<Rightarrow> string \<Rightarrow> nat \<Rightarrow> nat
     \<Rightarrow> (event list \<times> status \<times> (client option \<times> subscription option) \<times> nat \<times> nat) option" where
  "reconnectWSClient dial subscribe ep k j = reconnectLoop dial subscribe ep 0 k j"

section \<open>Configuration\<close>

text \<open>
  \<open>strconv.ParseBool\<close> accepts \<open>1, t, T, TRUE, true, True, 0, f, F, FALSE, false, False\<close>;
  \<open>parseBoolEnvVar\<close> turns any other text into its own error.
\<close>

definition parseBoolEnvVar :: "string \<Rightarrow> string \<Rightarrow> string + bool" where
  "parseBoolEnvVar name v =
     (if v \<in> set [''1'', ''t'', ''T'', ''TRUE'', ''true'', ''True''] then Inr True
      else if v \<in> set [''0'', ''f'', ''F'', ''FALSE'', ''false'', ''False''] then Inr False
      else Inl (''environment variable '' @ name @ '' must be true or false, got '' @ [CHR 0x27] @ v @ [CHR 0x27]))"

text \<open>
  \<open>strconv.ParseUint(value, 10, 64)\<close> accepts a non-empty text of decimal digits whose value
  is below \<open>2^64\<close>; \<open>parseUintEnvVar\<close> turns every failure into its own error.
\<close>

definition isDigit :: "char \<Rightarrow> bool" where
  "isDigit c = (c \<in> set ''0123456789'')"

definition digitValue :: "char \<Rightarrow> nat" where
  "digitValue c = of_char c - 48"

definition decimalValue :: "string \<Rightarrow> nat" where
  "decimalValue v = foldl (\<lambda>n c. 10 * n + digitValue c) 0 v"

definition parseUintEnvVar :: "string \<Rightarrow> string \<Rightarrow> string + uint64" where
  "parseUintEnvVar name v =
     (if v \<noteq> [] \<and> list_all isDigit v \<and> decimalValue v < 2 ^ 64 then Inr (of_nat (decimalValue v))
      else Inl (''environment variable '' @ name @ '' must be a positive integer, got '' @ [CHR 0x27] @ v @ [CHR 0x27]))"

text \<open>The locals of \<open>main\<close> that are set from the environment and fixed from then on.\<close>

record config =
  bidderAddress :: string
  usePayload :: bool
  rpcEndpoint :: string
  wsEndpoint :: string
  privateKeyHex :: string
  offset :: uint64
  ethTransfer :: string
  blob :: string

text \<open>
  What the process finds outside when it starts: whether \<open>godotenv.Load\<close> fails, the
  environment after the load (\<open>os.Getenv\<close> gives the empty text for an unset variable),
  whether authentication and the bidder client fail, and the outcomes of the dials and
  subscriptions, by call count.
\<close>

record world =
  dotenvErr :: bool
  getenv :: "string \<Rightarrow> string"
  authErr :: bool
  bidderErr :: bool
  dialRPC :: "nat \<Rightarrow> client option"
  dialWS :: "nat \<Rightarrow> client option"
  subscribeHead :: "nat \<Rightarrow> subscription option"
  floatOverflow :: "nat \<Rightarrow> int64"
  randomWei :: "uint64 \<Rightarrow> int64"

text \<open>
  \<open>main\<close> up to the reading of the mode flags: the settings read from the environment,
  each checked as it is read. The result is the events so far and the configuration, or
  \<open>None\<close> when \<open>log.Crit\<close> ended the process.
\<close>

definition readSettings :: "world \<Rightarrow> event list \<times> config option" where
  "readSettings w =
     (if dotenvErr w then ([Log Crit ''Error loading .env file''], None)
      else
        let addr =
              (if getenv w ''BIDDER_ADDRESS'' = [] then ''mev-commit-bidder:13524''
               else getenv w ''BIDDER_ADDRESS'');
            usePayloadEnv = getenv w ''USE_PAYLOAD''
        in case (if usePayloadEnv \<noteq> [] then parseBoolEnvVar ''USE_PAYLOAD'' usePayloadEnv
                 else Inr True) of
             Inl e \<Rightarrow> ([Log Crit ''Invalid USE_PAYLOAD value''], None)
           | Inr up \<Rightarrow>
               let rpc = (if up then [] else getenv w ''RPC_ENDPOINT'')
               in if \<not> up \<and> rpc = [] then
                    ([Log Crit ''RPC_ENDPOINT environment variable is required when USE_PAYLOAD is false''],
                     None)
                  else if getenv w ''WS_ENDPOINT'' = [] then
                    ([Log Crit ''WS_ENDPOINT environment variable is required''], None)
                  else if getenv w ''PRIVATE_KEY'' = [] then
                    ([Log Crit ''PRIVATE_KEY environment variable is required''], None)
                  else
                    (case (if getenv w ''OFFSET'' \<noteq> [] then parseUintEnvVar ''OFFSET'' (getenv w ''OFFSET'')
                           else Inr 1) of
                       Inl e \<Rightarrow> ([Log Crit ''Invalid OFFSET value''], None)
                     | Inr off \<Rightarrow>
                         ([], Some \<lparr>bidderAddress = addr, usePayload = up,
                                    rpcEndpoint = rpc, wsEndpoint = getenv w ''WS_ENDPOINT'',
                                    privateKeyHex = getenv w ''PRIVATE_KEY'', offset = off,
                                    ethTransfer = getenv w ''ETH_TRANSFER'',
                                    blob = getenv w ''BLOB''\<rparr>)))"

text \<open>The validation of the mode flags, and the log line of the configuration after it.\<close>

definition validateModes :: "config \<Rightarrow> event list \<times> config option" where
  "validateModes cfg =
     (if ethTransfer cfg = ''true'' \<and> blob cfg = ''true'' then
        ([Log Crit ''Only one of --ethtransfer or --blob can be set at a time''], None)
      else ([Log Info ''Configuration values''], Some cfg))"

definition readConfig :: "world \<Rightarrow> event list \<times> config option" where
  "readConfig w =
     (case snd (readSettings w) of
        None \<Rightarrow> readSettings w
      | Some cfg \<Rightarrow> (fst (readSettings w) @ fst (validateModes cfg), snd (validateModes cfg)))"

section \<open>One head\<close>

record header =
  hdNumber :: nat
  hdTime :: uint64
  hdHash :: string

text \<open>What a Transaction Builder call returns: \<open>(signedTx, blockNumber, err)\<close>.\<close>

type_synonym built = "transaction option \<times> uint64 \<times> string option"

text \<open>
  What the iteration for one head reads from outside: what \<open>ee.SelfETHTransfer\<close> and
  \<open>ee.ExecuteBlobTransaction\<close> return if called, the error of \<open>ee.SendBundle\<close>, and
  what \<open>sendPreconfBid\<close> reads.
\<close>

record head_env =
  selfTransfer :: built
  blobTransaction :: built
  bundleErr :: "string option"
  bidEnv :: bid_env

definition NUM_BLOBS :: int where
  "NUM_BLOBS = 6"

text \<open>
  The body of \<open>case header := <-headers\<close>. The variable \<open>err\<close> is the one of \<open>main\<close>: it
  comes in with the value the last assignment left (\<open>err0\<close>) and goes out as the third
  component. \<open>signedTx.Hash()\<close> on a nil transaction panics.
\<close>

definition construct :: "config \<Rightarrow> string option \<Rightarrow> head_env \<Rightarrow> event list \<times> built" where
  "construct cfg err0 env =
     (if ethTransfer cfg = ''true'' then
        ([CallSelfETHTransfer (10 ^ 15) (offset cfg)], selfTransfer env)
      else if blob cfg = ''true'' then
        ([CallExecuteBlobTransaction NUM_BLOBS (offset cfg)], blobTransaction env)
      else ([], (None, 0, err0)))"

definition onHead ::
  "(uint64 \<Rightarrow> int64) \<Rightarrow> config \<Rightarrow> string option \<Rightarrow> header \<Rightarrow> head_env
     \<Rightarrow> event list \<times> status \<times> string option" where
  "onHead rw cfg err0 h env =
     (let c = construct cfg err0 env;
          signedTx = fst (snd c);
          blockNumber = fst (snd (snd c));
          err = snd (snd (snd c));
          pre = fst c
                @ [if signedTx = None then Log Error ''Transaction was not signed or created.''
                   else Log Info ''Transaction sent successfully'']
                @ (if err \<noteq> None then [Log Error ''failed to execute transaction''] else [])
                @ [Log Info ''new block received'']
      in if usePayload cfg then
           (let r = sendPreconfBid rw (bidEnv env) (RefTx signedTx) blockNumber
            in if snd r = Panicked then (pre @ fst r, Panicked, err)
               else (pre @ fst r
                     @ (if err \<noteq> None then [Log Error ''failed to execute blob tx''] else []),
                     Returned, err))
         else
           (let err' = bundleErr env;
                relay = SendBundle (rpcEndpoint cfg) signedTx blockNumber
                        # (if err' \<noteq> None then [Log Error ''Failed to send transaction''] else [])
            in case signedTx of
                 None \<Rightarrow> (pre @ relay, Panicked, err')
               | Some tx \<Rightarrow>
                   (let r = sendPreconfBid rw (bidEnv env) (RefString (txHash tx)) blockNumber
                    in (pre @ relay @ fst r
                        @ (if err' \<noteq> None then [Log Error ''failed to execute blob tx''] else []),
                        snd r, err'))))"

section \<open>The event loop\<close>

text \<open>What the \<open>select\<close> of the loop receives: the timer, a subscription error, or a head.\<close>

datatype select_event = TimerFired | SubscriptionError | NewHead header head_env

record loop_state =
  wsClient :: "client option"
  sub :: "subscription option"
  err :: "string option"
  wsDials :: nat
  subscriptions :: nat

text \<open>
  The loop on the events delivered so far. It ends when the timer fires, when
  \<open>reconnectWSClient\<close> gives up, or in a panic; \<open>None\<close> is a reconnection that never returns.
\<close>

fun eventLoop :: "world \<Rightarrow> config \<Rightarrow> loop_state \<Rightarrow> select_event list \<Rightarrow> (event list \<times> status) option" where
  "eventLoop w cfg st [] = Some ([], Blocked)"
| "eventLoop w cfg st (TimerFired # es) = Some ([Log Info ''Stopping the loop.''], Returned)"
| "eventLoop w cfg st (SubscriptionError # es) =
     (case reconnectWSClient (dialWS w) (subscribeHead w) (wsEndpoint cfg) (wsDials st) (subscriptions st) of
        None \<Rightarrow> None
      | Some r \<Rightarrow>
          if fst (snd r) = Exited then Some (Log Warn ''subscription error'' # fst r, Exited)
          else
            map_option (before (Log Warn ''subscription error'' # fst r))
              (eventLoop w cfg
                 (st\<lparr>wsClient := fst (fst (snd (snd r))), sub := snd (fst (snd (snd r))),
                     wsDials := fst (snd (snd (snd r))), subscriptions := snd (snd (snd (snd r)))\<rparr>)
                 es))"
| "eventLoop w cfg st (NewHead h env # es) =
     (let r = onHead (randomWei w) cfg (err st) h env
      in if fst (snd r) = Panicked then Some (fst r, Panicked)
         else map_option (before (fst r)) (eventLoop w cfg (st\<lparr>err := snd (snd r)\<rparr>) es))"

section \<open>main\<close>

text \<open>
  \<open>main\<close> from the configuration to the start of the loop: the events, and the state the
  loop starts in, or \<open>None\<close> inside when \<open>log.Crit\<close> ended the process. The outer \<open>None\<close>
  is \<open>connectWSClient\<close> never returning.
\<close>

definition dialRPCIfRelay :: "world \<Rightarrow> config \<Rightarrow> event list" where
  "dialRPCIfRelay w cfg =
     (if \<not> usePayload cfg then
        (let r = connectRPCClientWithRetries (floatOverflow w) (dialRPC w) (rpcEndpoint cfg) 5 (30 * second)
         in fst r
            @ (if snd r = None then [Log Error ''failed to connect to RPC client''] else [])
            @ [Log Info ''(rpc) geth client connected''])
      else [])"

definition startup :: "world \<Rightarrow> (event list \<times> (config \<times> loop_state) option) option" where
  "startup w =
     (case readConfig w of
        (evs0, None) \<Rightarrow> Some (evs0, None)
      | (evs0, Some cfg) \<Rightarrow>
          if authErr w then
            Some (evs0 @ [Authenticate (privateKeyHex cfg),
                          Log Crit ''Failed to authenticate private key:''], None)
          else if bidderErr w then
            Some (evs0 @ [Authenticate (privateKeyHex cfg), NewBidderClient (bidderAddress cfg),
                          Log Crit ''failed to connect to mev-commit bidder API''], None)
          else
            (let evs1 = evs0 @ [Authenticate (privateKeyHex cfg), NewBidderClient (bidderAddress cfg),
                                Log Info ''connected to mev-commit client'']
                        @ dialRPCIfRelay w cfg
             in case connectWSClient (dialWS w) (wsEndpoint cfg) 0 of
                  None \<Rightarrow> None
                | Some c \<Rightarrow>
                    if snd (fst (snd c)) \<noteq> None then
                      Some (evs1 @ fst c @ [Log Crit ''failed to connect to geth client''], None)
                    else
                      (case subscribeHead w 0 of
                         None \<Rightarrow>
                           Some (evs1 @ fst c @ [Log Info ''(ws) geth client connected'', SubscribeNewHead,
                                                 Log Crit ''failed to subscribe to new blocks''], None)
                       | Some s \<Rightarrow>
                           Some (evs1 @ fst c @ [Log Info ''(ws) geth client connected'', SubscribeNewHead],
                                 Some (cfg, \<lparr>wsClient = fst (fst (snd c)), sub = Some s, err = None,
                                             wsDials = snd (snd c), subscriptions = 1\<rparr>)))))"

definition main :: "world \<Rightarrow> select_event list \<Rightarrow> (event list \<times> status) option" where
  "main w es =
     (case startup w of
        None \<Rightarrow> None
      | Some r \<Rightarrow>
          (case snd r of
             None \<Rightarrow> Some (fst r, Exited)
           | Some l \<Rightarrow> map_option (before (fst r)) (eventLoop w (fst l) (snd l) es)))"

section \<open>The Transaction Builder\<close>

text \<open>
  Modelled from the spec: the Transaction Builder, \<open>ee.SelfETHTransfer\<close> and
  \<open>ee.ExecuteBlobTransaction\<close> of package \<open>core/eth\<close>, which is not among the sources. The
  spec gives its interface, \<open>buildSelfTransfer(conn, account, amount, offset) -> (tx,
  blockNumber, err)\<close> and \<open>buildBlobTransaction(conn, account, blobCount, offset) -> (tx,
  blockNumber, err)\<close>, the target block of the candidate, \<open>targetBlock = head.number +
  session.offset\<close>, and that a failed construction returns the error. \<open>headNumber\<close> is the
  number of the head as the connection gives it, \<open>outcome\<close> the result of constructing and
  signing; the sum is one of \<open>uint64\<close>, the type of \<open>offset\<close> and \<open>blockNumber\<close> in \<open>main\<close>.
\<close>

definition SelfETHTransfer :: "uint64 \<Rightarrow> string + transaction \<Rightarrow> int \<Rightarrow> uint64 \<Rightarrow> built" where
  "SelfETHTransfer headNumber outcome amount off =
     (case outcome of
        Inl e \<Rightarrow> (None, 0, Some e)
      | Inr tx \<Rightarrow> (Some tx, headNumber + off, None))"

text \<open>
  Modelled from the spec: \<open>buildBlobTransaction\<close>, the builder of blob mode, not among the
  sources either; the spec gives it the same target block and the same failure.
\<close>

definition ExecuteBlobTransaction :: "uint64 \<Rightarrow> string + transaction \<Rightarrow> int \<Rightarrow> uint64 \<Rightarrow> built" where
  "ExecuteBlobTransaction headNumber outcome blobCount off =
     (case outcome of
        Inl e \<Rightarrow> (None, 0, Some e)
      | Inr tx \<Rightarrow> (Some tx, headNumber + off, None))"

section \<open>Reading traces\<close>

text \<open>The events that seed the random source or submit a bid.\<close>

fun seedOrBid :: "event \<Rightarrow> bool" where
  "seedOrBid (RandSeed s) = True"
| "seedOrBid (SendBid b) = True"
| "seedOrBid e = False"

text \<open>
  \<open>reseeded f evs\<close>: every bid of \<open>evs\<close> comes after a seeding that no other bid has
  followed yet; \<open>f\<close> tells whether such a seeding precedes \<open>evs\<close>.
\<close>

fun reseeded :: "bool \<Rightarrow> event list \<Rightarrow> bool" where
  "reseeded f [] = True"
| "reseeded f (RandSeed s # es) = reseeded True es"
| "reseeded f (SendBid b # es) = (f \<and> reseeded False es)"
| "reseeded f (e # es) = reseeded f es"

text \<open>The relay calls of a trace: the transaction and block number given to \<open>SendBundle\<close>.\<close>

fun bundlesOf :: "event list \<Rightarrow> (transaction option \<times> uint64) list" where
  "bundlesOf [] = []"
| "bundlesOf (SendBundle ep tx bn # es) = (tx, bn) # bundlesOf es"
| "bundlesOf (e # es) = bundlesOf es"

section \<open>Example runs\<close>

definition fixedWei :: "uint64 \<Rightarrow> int64" where
  "fixedWei s = 500000000000000"

definition noOverflow :: "nat \<Rightarrow> int64" where
  "noOverflow i = 0"

definition tx1 :: transaction where
  "tx1 = \<lparr>txHash = ''0xaa01'', txPayload = ''p1''\<rparr>"

definition tx2 :: transaction where
  "tx2 = \<lparr>txHash = ''0xaa02'', txPayload = ''p2''\<rparr>"

definition head100 :: header where
  "head100 = \<lparr>hdNumber = 100, hdTime = 1700000000, hdHash = ''0xh100''\<rparr>"

definition head101 :: header where
  "head101 = \<lparr>hdNumber = 101, hdTime = 1700000012, hdHash = ''0xh101''\<rparr>"

definition clock1 :: bid_env where
  "clock1 = \<lparr>nowSeed = 1700000000000000000, nowBid = 1700000000000500000, sendErr = False\<rparr>"

definition clock2 :: bid_env where
  "clock2 = \<lparr>nowSeed = 1700000012000000000, nowBid = 1700000012000500000, sendErr = False\<rparr>"

text \<open>A payload-mode configuration in self-transfer mode, and the same in relay mode.\<close>

definition payloadCfg :: config where
  "payloadCfg = \<lparr>bidderAddress = ''mev-commit-bidder:13524'', usePayload = True, rpcEndpoint = [],
                  wsEndpoint = ''ws://node'', privateKeyHex = ''k'', offset = 1,
                  ethTransfer = ''true'', blob = []\<rparr>"

definition relayCfg :: config where
  "relayCfg = payloadCfg\<lparr>usePayload := False, rpcEndpoint := ''http://rpc''\<rparr>"

text \<open>A head for which the builder fails, and two for which it succeeds.\<close>

definition failedBuild :: head_env where
  "failedBuild = \<lparr>selfTransfer = (None, 0, Some ''insufficient funds''),
                   blobTransaction = (None, 0, Some ''insufficient funds''),
                   bundleErr = None, bidEnv = clock1\<rparr>"

definition built101 :: head_env where
  "built101 = \<lparr>selfTransfer = (Some tx1, 101, None), blobTransaction = (Some tx1, 101, None),
                bundleErr = None, bidEnv = clock1\<rparr>"

definition built102 :: head_env where
  "built102 = \<lparr>selfTransfer = (Some tx2, 102, None), blobTransaction = (Some tx2, 102, None),
                bundleErr = None, bidEnv = clock2\<rparr>"

text \<open>
  A head for which both builders are the spec's, run on that head, and a configuration
  whose offset is \<open>2^63\<close>.
\<close>

definition specBuilt :: "header \<Rightarrow> config \<Rightarrow> head_env" where
  "specBuilt h cfg =
     \<lparr>selfTransfer = SelfETHTransfer (of_nat (hdNumber h)) (Inr tx1) (10 ^ 15) (offset cfg),
      blobTransaction = ExecuteBlobTransaction (of_nat (hdNumber h)) (Inr tx1) NUM_BLOBS (offset cfg),
      bundleErr = None, bidEnv = clock1\<rparr>"

definition farCfg :: config where
  "farCfg = payloadCfg\<lparr>offset := 9223372036854775808\<rparr>"

text \<open>An environment in relay mode with self-transfer, and worlds around it.\<close>

definition relayEnv :: "string \<Rightarrow> string" where
  "relayEnv v =
     (if v = ''USE_PAYLOAD'' then ''false''
      else if v = ''RPC_ENDPOINT'' then ''http://rpc''
      else if v = ''WS_ENDPOINT'' then ''ws://node''
      else if v = ''PRIVATE_KEY'' then ''k''
      else if v = ''ETH_TRANSFER'' then ''true''
      else [])"

definition bothModesEnv :: "string \<Rightarrow> string" where
  "bothModesEnv v = (if v = ''BLOB'' then ''true'' else relayEnv v)"

definition noModeEnv :: "string \<Rightarrow> string" where
  "noModeEnv v = (if v = ''ETH_TRANSFER'' then [] else if v = ''USE_PAYLOAD'' then [] else relayEnv v)"

definition neverDials :: "nat \<Rightarrow> client option" where
  "neverDials i = None"

definition thirdDial :: "nat \<Rightarrow> client option" where
  "thirdDial i = (if i = 2 then Some 7 else None)"

definition alwaysDials :: "nat \<Rightarrow> client option" where
  "alwaysDials k = Some k"

definition neverSubscribes :: "nat \<Rightarrow> subscription option" where
  "neverSubscribes j = None"

definition alwaysSubscribes :: "nat \<Rightarrow> subscription option" where
  "alwaysSubscribes j = Some j"

definition world0 :: "(string \<Rightarrow> string) \<Rightarrow> world" where
  "world0 env = \<lparr>dotenvErr = False, getenv = env, authErr = False, bidderErr = False,
                  dialRPC = neverDials, dialWS = alwaysDials, subscribeHead = alwaysSubscribes,
                  floatOverflow = noOverflow, randomWei = fixedWei\<rparr>"

section \<open>Properties of sendPreconfBid\<close>

lemma milliseconds_36s: "milliseconds (36 * second) = 36000"
  by (simp add: milliseconds_def second_def)

lemma sint_word_of_int64:
  "- (2 ^ 63) \<le> i \<Longrightarrow> i < 2 ^ 63 \<Longrightarrow> sint (word_of_int i :: 64 word) = i"
  by (simp add: sint_sbintrunc' signed_take_bit_int_eq_self)

lemma bidsOf_sendPreconfBid:
  "bidsOf (fst (sendPreconfBid rw env input bn)) =
     (case input of
        RefString v \<Rightarrow>
          [\<lparr>bidInput = Hashes [trimPrefix v ''0x''], bidAmount = sprintf_d (rw (unixNano (nowSeed env))),
            bidBlock = bn, decayStart = unixMilli (nowBid env),
            decayEnd = unixMilli (nowBid env) + 36000\<rparr>]
      | RefTx None \<Rightarrow> []
      | RefTx (Some tx) \<Rightarrow>
          [\<lparr>bidInput = Txs [tx], bidAmount = sprintf_d (rw (unixNano (nowSeed env))),
            bidBlock = bn, decayStart = unixMilli (nowBid env),
            decayEnd = unixMilli (nowBid env) + 36000\<rparr>]
      | RefOther ty \<Rightarrow> [])"
  by (simp add: sendPreconfBid_def Let_def milliseconds_36s split: reference.split option.split)

text \<open>
  Claim C2. Every bid that \<open>sendPreconfBid\<close> hands to \<open>SendBid\<close> has a decay window of
  exactly 36000 milliseconds: \<open>decayEnd - decayStart = 36000\<close> in the program's 64-bit
  arithmetic, and as signed numbers whenever the millisecond clock plus the window fits
  an \<open>int64\<close>. Its \<open>decayStart\<close> is the millisecond reading of the clock taken for the bid,
  and is at least the millisecond reading of the clock at which the composition began
  (the instant read for the seed, the function's first statement), as long as the wall
  clock has not been set back between the two readings.
\<close>

theorem decay_window:
  assumes "b \<in> set (bidsOf (fst (sendPreconfBid rw env input blockNumber)))"
  shows "decayEnd b - decayStart b = 36000 \<and>
         decayStart b = unixMilli (nowBid env) \<and>
         (- (2 ^ 63) \<le> nowBid env div 1000000 \<and> nowBid env div 1000000 + 36000 < 2 ^ 63 \<longrightarrow>
            sint (decayEnd b) - sint (decayStart b) = 36000) \<and>
         (nowSeed env \<le> nowBid env \<and> - (2 ^ 63) \<le> nowBid env div 1000000 \<and>
          nowBid env div 1000000 < 2 ^ 63 \<longrightarrow>
            nowSeed env div 1000000 \<le> sint (decayStart b))"
proof -
  let ?m = "nowBid env div 1000000"
  from assms have s: "decayStart b = unixMilli (nowBid env)"
    and e: "decayEnd b = unixMilli (nowBid env) + 36000"
    by (auto simp: bidsOf_sendPreconfBid split: reference.splits option.splits)
  have width: "decayEnd b - decayStart b = 36000"
    by (simp add: s e)
  have signed: "sint (decayEnd b) - sint (decayStart b) = 36000"
    if lo: "- (2 ^ 63) \<le> ?m" and hi: "?m + 36000 < 2 ^ 63"
  proof -
    have "decayEnd b = word_of_int (?m + 36000)"
      by (simp add: e unixMilli_def)
    then have "sint (decayEnd b) = ?m + 36000"
      using lo hi by (simp only: sint_word_of_int64)
    moreover have "sint (decayStart b) = ?m"
      using lo hi by (simp add: s unixMilli_def sint_word_of_int64)
    ultimately show ?thesis by simp
  qed
  have start: "nowSeed env div 1000000 \<le> sint (decayStart b)"
    if mono: "nowSeed env \<le> nowBid env" and lo: "- (2 ^ 63) \<le> ?m" and hi: "?m < 2 ^ 63"
  proof -
    have "sint (decayStart b) = ?m"
      using lo hi by (simp add: s unixMilli_def sint_word_of_int64)
    moreover have "nowSeed env div 1000000 \<le> ?m"
      using mono by (rule zdiv_mono1) simp
    ultimately show ?thesis by simp
  qed
  from width s signed start show ?thesis by blast
qed

theorem decay_window_witness:
  "bidsOf (fst (sendPreconfBid (\<lambda>s. 500000000000000)
       \<lparr>nowSeed = 1700000000000000000, nowBid = 1700000000000500000, sendErr = False\<rparr>
       (RefString ''0xabc'') 101)) =
     [\<lparr>bidInput = Hashes [''abc''], bidAmount = ''500000000000000'', bidBlock = 101,
       decayStart = 1700000000000, decayEnd = 1700000036000\<rparr>] \<and>
   (1700000036000 :: int64) - 1700000000000 = 36000 \<and>
   sint (1700000036000 :: int64) - sint (1700000000000 :: int64) = 36000 \<and>
   (1700000000000000000 :: int) div 1000000 \<le> sint (1700000000000 :: int64)"
proof -
  let ?env = "\<lparr>nowSeed = 1700000000000000000, nowBid = 1700000000000500000, sendErr = False\<rparr>"
  let ?b = "\<lparr>bidInput = Hashes [''abc''], bidAmount = ''500000000000000'', bidBlock = 101,
       decayStart = 1700000000000, decayEnd = 1700000036000 :: int64\<rparr>"
  have run: "bidsOf (fst (sendPreconfBid (\<lambda>s. 500000000000000) ?env (RefString ''0xabc'') 101)) = [?b]"
    by (simp add: sendPreconfBid_def Let_def milliseconds_36s trimPrefix_def sprintf_d_def
        digitChar_def unixNano_def unixMilli_def)
  then have "?b \<in> set (bidsOf (fst (sendPreconfBid (\<lambda>s. 500000000000000) ?env (RefString ''0xabc'') 101)))"
    by simp
  from decay_window [OF this] run show ?thesis
    by simp
qed

text \<open>
  Claim C4. The dispatch of \<open>sendPreconfBid\<close> has two submitting arms. A string reference is
  submitted as a hash with a leading \<open>0x\<close> stripped when it is there, and as it is
  otherwise; a transaction is submitted unmodified; a reference of any other dynamic type
  is rejected with the warning \<open>unsupported input type\<close> and nothing is submitted: the
  trace holds the seeding and the warning only.
\<close>

theorem reference_dispatch:
  "map bidInput (bidsOf (fst (sendPreconfBid rw env (RefString v) bn))) = [Hashes [trimPrefix v ''0x'']] \<and>
   trimPrefix (''0x'' @ x) ''0x'' = x \<and>
   (take 2 v \<noteq> ''0x'' \<longrightarrow> trimPrefix v ''0x'' = v) \<and>
   map bidInput (bidsOf (fst (sendPreconfBid rw env (RefTx (Some tx)) bn))) = [Txs [tx]] \<and>
   sendPreconfBid rw env (RefOther ty) bn =
     ([RandSeed (unixNano (nowSeed env)),
       Log Warn ''unsupported input type, must be string or *types.Transaction''], Returned) \<and>
   bidsOf (fst (sendPreconfBid rw env (RefOther ty) bn)) = []"
  by (simp add: bidsOf_sendPreconfBid trimPrefix_def numeral_2_eq_2)
     (simp add: sendPreconfBid_def Let_def)

theorem reference_dispatch_witness:
  "map bidInput (bidsOf (fst (sendPreconfBid (\<lambda>s. 500000000000000)
       \<lparr>nowSeed = 1700000000000000000, nowBid = 1700000000000500000, sendErr = False\<rparr>
       (RefString ''abc'') 101))) = [Hashes [''abc'']] \<and>
   trimPrefix ''0xabc'' ''0x'' = ''abc'' \<and>
   take 2 ''abc'' \<noteq> ''0x'' \<and> trimPrefix ''abc'' ''0x'' = ''abc''"
  using reference_dispatch [of "\<lambda>s. 500000000000000"
      "\<lparr>nowSeed = 1700000000000000000, nowBid = 1700000000000500000, sendErr = False\<rparr>"
      "''abc''" 101 "''abc''"]
  by (simp add: trimPrefix_def)

text \<open>The definitions that evaluate clock readings, texts and sleeps.\<close>

lemmas eval_defs = unixNano_def unixMilli_def second_def milliseconds_def trimPrefix_def
  digitChar_def sprintf_d_def backoff_def pow2Duration_def before_def

section \<open>Seeds and bids in traces\<close>

lemma reseeded_filter: "reseeded f (filter seedOrBid evs) = reseeded f evs"
  by (induction f evs rule: reseeded.induct) simp_all

lemma reseeded_weaken: "reseeded False evs \<Longrightarrow> reseeded f evs"
  by (induction f evs rule: reseeded.induct) simp_all

lemma reseeded_append:
  "reseeded f xs \<Longrightarrow> reseeded False ys \<Longrightarrow> reseeded f (xs @ ys)"
  by (induction f xs rule: reseeded.induct) (simp_all add: reseeded_weaken)

lemma reseeded_quiet: "filter seedOrBid evs = [] \<Longrightarrow> reseeded f evs"
  using reseeded_filter [of f evs] by simp

lemma seeds_sendPreconfBid:
  "filter seedOrBid (fst (sendPreconfBid rw env input bn)) =
     RandSeed (unixNano (nowSeed env)) # map SendBid (bidsOf (fst (sendPreconfBid rw env input bn)))"
  by (simp add: sendPreconfBid_def Let_def split: reference.split option.split)

lemma one_bid_sendPreconfBid: "length (bidsOf (fst (sendPreconfBid rw env input bn))) \<le> 1"
  by (simp add: sendPreconfBid_def Let_def split: reference.split option.split)

lemma reseeded_sendPreconfBid: "reseeded f (fst (sendPreconfBid rw env input bn))"
  by (simp add: sendPreconfBid_def Let_def split: reference.split option.split)

lemma quiet_construct: "filter seedOrBid (fst (construct cfg e env)) = []"
  by (simp add: construct_def)

lemma reseeded_onHead: "reseeded False (fst (onHead rw cfg e h env))"
proof -
  let ?c = "construct cfg e env"
  let ?pre = "fst ?c
                @ [if fst (snd ?c) = None then Log Error ''Transaction was not signed or created.''
                   else Log Info ''Transaction sent successfully'']
                @ (if snd (snd (snd ?c)) \<noteq> None then [Log Error ''failed to execute transaction''] else [])
                @ [Log Info ''new block received'']"
  have pre: "reseeded False ?pre"
    by (rule reseeded_quiet) (simp add: quiet_construct)
  have send: "reseeded False (fst (sendPreconfBid rw (bidEnv env) r bn) @ (if c then [Log Error m] else []))"
    for r bn c m
    by (intro reseeded_append reseeded_sendPreconfBid) simp
  have relay: "reseeded False (SendBundle ep t bn # (if c then [Log Error m] else []))" for ep t bn c m
    by simp
  show ?thesis
  proof (cases "usePayload cfg")
    case True
    have "fst (onHead rw cfg e h env) = ?pre @ fst (sendPreconfBid rw (bidEnv env) (RefTx (fst (snd ?c))) (fst (snd (snd ?c))))
        \<or> fst (onHead rw cfg e h env) = ?pre @ (fst (sendPreconfBid rw (bidEnv env) (RefTx (fst (snd ?c))) (fst (snd (snd ?c))))
              @ (if snd (snd (snd ?c)) \<noteq> None then [Log Error ''failed to execute blob tx''] else []))"
      using True by (simp add: onHead_def Let_def)
    then show ?thesis
      using reseeded_append [OF pre send] reseeded_append [OF pre reseeded_sendPreconfBid]
      by metis
  next
    case False
    show ?thesis
    proof (cases "fst (snd ?c)")
      case None
      then have "fst (onHead rw cfg e h env) =
          ?pre @ (SendBundle (rpcEndpoint cfg) None (fst (snd (snd ?c)))
                  # (if bundleErr env \<noteq> None then [Log Error ''Failed to send transaction''] else []))"
        using False by (simp add: onHead_def Let_def)
      then show ?thesis
        using reseeded_append [OF pre relay] by metis
    next
      case (Some tx)
      then have "fst (onHead rw cfg e h env) =
          ?pre @ ((SendBundle (rpcEndpoint cfg) (Some tx) (fst (snd (snd ?c)))
                  # (if bundleErr env \<noteq> None then [Log Error ''Failed to send transaction''] else []))
                  @ (fst (sendPreconfBid rw (bidEnv env) (RefString (txHash tx)) (fst (snd (snd ?c))))
                     @ (if bundleErr env \<noteq> None then [Log Error ''failed to execute blob tx''] else [])))"
        using False by (simp add: onHead_def Let_def)
      then show ?thesis
        using reseeded_append [OF pre reseeded_append [OF relay send]] by metis
    qed
  qed
qed

lemma quiet_connectWSClient:
  assumes "connectWSClient dial ep k = Some r"
  shows "filter seedOrBid (fst r) = []"
proof (rule connectWSClient.raw_induct [where P = "\<lambda>dial ep k r. filter seedOrBid (fst r) = []", OF _ assms])
  fix connect :: "(nat \<Rightarrow> client option) \<Rightarrow> string \<Rightarrow> nat \<Rightarrow> (event list \<times> (client option \<times> string option) \<times> nat) option"
  fix dial ep k r
  assume IH: "\<And>dial ep k r. connect dial ep k = Some r \<Longrightarrow> filter seedOrBid (fst r) = []"
    and step: "(case dial k of
      None \<Rightarrow> Option.bind (connect dial ep (Suc k))
         (\<lambda>r. Some ([DialWS ep, Log Warn ''failed to connect to websocket client'', Sleep (10 * second)] @ fst r, snd r))
      | Some c \<Rightarrow> Some ([DialWS ep], (Some c, None), Suc k)) = Some r"
  show "filter seedOrBid (fst r) = []"
  proof (cases "dial k")
    case None
    with step obtain r' where "connect dial ep (Suc k) = Some r'"
      and "r = ([DialWS ep, Log Warn ''failed to connect to websocket client'', Sleep (10 * second)] @ fst r', snd r')"
      by (auto simp: bind_eq_Some_conv)
    with IH [of dial ep "Suc k" r'] show ?thesis by simp
  next
    case (Some c)
    with step show ?thesis by auto
  qed
qed

lemma quiet_reconnectLoop:
  "reconnectLoop dial subscribe ep i k j = Some r \<Longrightarrow> filter seedOrBid (fst r) = []"
proof (induction dial subscribe ep i k j arbitrary: r rule: reconnectLoop.induct)
  case (1 dial subscribe ep i k j)
  show ?case
  proof (cases "i < 10")
    case False
    with "1.prems" show ?thesis by (auto simp: reconnectLoop.simps)
  next
    case True
    with "1.prems" obtain c where c: "connectWSClient dial ep k = Some c"
      by (auto simp: reconnectLoop.simps split: option.splits)
    obtain evs wsClient err k' where c': "c = (evs, (wsClient, err), k')"
      by (metis prod.collapse)
    have q: "filter seedOrBid evs = []"
      using quiet_connectWSClient [OF c] c' by simp
    show ?thesis
    proof (cases "err = None")
      case e: True
      show ?thesis
      proof (cases "subscribe j")
        case None
        with "1.prems" True c c' e obtain r' where
          r': "reconnectLoop dial subscribe ep (Suc i) k' (Suc j) = Some r'"
          and r: "r = before (evs @ [Log Info ''(ws) geth client reconnected'', SubscribeNewHead,
                                       Log Warn ''failed to reconnect WebSocket client, retrying...'',
                                       Sleep (5 * second)]) r'"
          by (auto simp: reconnectLoop.simps)
        from "1.IH"(1) [OF True c c' [symmetric] refl refl e None r'] q r
        show ?thesis by (simp add: before_def)
      next
        case (Some s)
        with "1.prems" True c c' e q show ?thesis
          by (auto simp: reconnectLoop.simps)
      qed
    next
      case e: False
      with "1.prems" True c c' obtain r' where
        r': "reconnectLoop dial subscribe ep (Suc i) k' j = Some r'"
        and r: "r = before (evs @ [Log Warn ''failed to reconnect WebSocket client, retrying...'',
                                       Sleep (5 * second)]) r'"
        by (auto simp: reconnectLoop.simps)
      from "1.IH"(2) [OF True c c' [symmetric] refl refl e r'] q r
      show ?thesis by (simp add: before_def)
    qed
  qed
qed

lemma quiet_rpcLoop: "filter seedOrBid (fst (rpcLoop ovf dial ep m t i)) = []"
proof (induction ovf dial ep m t i rule: rpcLoop.induct)
  case (1 ovf dial ep m t i)
  show ?case
  proof (cases "int i < m")
    case False
    then show ?thesis by (simp add: rpcLoop.simps)
  next
    case True
    show ?thesis
    proof (cases "dial i")
      case None
      with True "1.IH" [OF True None] show ?thesis
        by (auto simp: rpcLoop.simps [of ovf dial ep m t i] split: prod.split)
    next
      case (Some c)
      with True show ?thesis by (simp add: rpcLoop.simps)
    qed
  qed
qed

lemma readSettings_fatal:
  assumes "snd (readSettings w) = None"
  shows "\<exists>m. readSettings w = ([Log Crit m], None)"
proof (cases "dotenvErr w")
  case True
  then show ?thesis by (simp add: readSettings_def)
next
  case False
  show ?thesis
  proof (cases "if getenv w ''USE_PAYLOAD'' \<noteq> [] then parseBoolEnvVar ''USE_PAYLOAD'' (getenv w ''USE_PAYLOAD'')
                else Inr True")
    case (Inl e)
    with False show ?thesis by (simp add: readSettings_def Let_def)
  next
    case (Inr up)
    show ?thesis
    proof (cases "if getenv w ''OFFSET'' \<noteq> [] then parseUintEnvVar ''OFFSET'' (getenv w ''OFFSET'')
                  else Inr 1")
      case (Inl e)
      with False Inr show ?thesis by (simp add: readSettings_def Let_def)
    next
      case off: (Inr off)
      with False Inr assms show ?thesis by (simp add: readSettings_def Let_def split: if_splits)
    qed
  qed
qed

lemma readSettings_accepted:
  assumes "snd (readSettings w) = Some cfg"
  shows "fst (readSettings w) = [] \<and> ethTransfer cfg = getenv w ''ETH_TRANSFER'' \<and>
         blob cfg = getenv w ''BLOB''"
proof (cases "dotenvErr w")
  case True
  with assms show ?thesis by (simp add: readSettings_def)
next
  case False
  show ?thesis
  proof (cases "if getenv w ''USE_PAYLOAD'' \<noteq> [] then parseBoolEnvVar ''USE_PAYLOAD'' (getenv w ''USE_PAYLOAD'')
                else Inr True")
    case (Inl e)
    with False assms show ?thesis by (simp add: readSettings_def Let_def)
  next
    case (Inr up)
    show ?thesis
    proof (cases "if getenv w ''OFFSET'' \<noteq> [] then parseUintEnvVar ''OFFSET'' (getenv w ''OFFSET'')
                  else Inr 1")
      case (Inl e)
      with False Inr assms show ?thesis by (simp add: readSettings_def Let_def split: if_splits)
    next
      case off: (Inr off)
      with False Inr assms show ?thesis by (auto simp: readSettings_def Let_def split: if_splits)
    qed
  qed
qed

lemma quiet_readConfig: "filter seedOrBid (fst (readConfig w)) = []"
proof (cases "snd (readSettings w)")
  case None
  with readSettings_fatal [OF None] show ?thesis by (auto simp: readConfig_def)
next
  case (Some cfg)
  with readSettings_accepted [OF Some] show ?thesis by (simp add: readConfig_def validateModes_def)
qed

lemma quiet_dialRPCIfRelay: "filter seedOrBid (dialRPCIfRelay w cfg) = []"
  by (simp add: dialRPCIfRelay_def Let_def connectRPCClientWithRetries_def quiet_rpcLoop)

lemma quiet_startup:
  assumes "startup w = Some r"
  shows "filter seedOrBid (fst r) = []"
proof (cases "readConfig w")
  case (Pair evs0 c)
  have q0: "filter seedOrBid evs0 = []"
    using quiet_readConfig [of w] Pair by simp
  show ?thesis
  proof (cases c)
    case None
    with assms Pair q0 show ?thesis by (auto simp: startup_def)
  next
    case (Some cfg)
    show ?thesis
    proof (cases "authErr w \<or> bidderErr w")
      case True
      with assms Pair Some q0 show ?thesis by (cases "authErr w") (auto simp: startup_def)
    next
      case False
      with assms Pair Some obtain c where c: "connectWSClient (dialWS w) (wsEndpoint cfg) 0 = Some c"
        by (auto simp: startup_def Let_def split: option.splits)
      from False assms Pair Some c q0 quiet_connectWSClient [OF c] show ?thesis
        by (auto simp: startup_def Let_def quiet_dialRPCIfRelay split: option.splits if_splits)
    qed
  qed
qed

lemma reseeded_eventLoop:
  "eventLoop w cfg st es = Some r \<Longrightarrow> reseeded False (fst r)"
proof (induction w cfg st es arbitrary: r rule: eventLoop.induct)
  case (1 w cfg st)
  then show ?case by auto
next
  case (2 w cfg st es)
  then show ?case by auto
next
  case (3 w cfg st es)
  from "3.prems" obtain c where
    c: "reconnectWSClient (dialWS w) (subscribeHead w) (wsEndpoint cfg) (wsDials st) (subscriptions st) = Some c"
    by (auto split: option.splits)
  have q: "reseeded False (Log Warn ''subscription error'' # fst c)"
    using quiet_reconnectLoop [of _ _ _ 0 _ _ c] c
    by (simp add: reconnectWSClient_def reseeded_quiet)
  show ?case
  proof (cases "fst (snd c) = Exited")
    case True
    with "3.prems" c q show ?thesis by auto
  next
    case False
    with "3.prems" c obtain r' where
      r': "eventLoop w cfg
                 (st\<lparr>wsClient := fst (fst (snd (snd c))), sub := snd (fst (snd (snd c))),
                     wsDials := fst (snd (snd (snd c))), subscriptions := snd (snd (snd (snd c)))\<rparr>)
                 es = Some r'"
      and r: "r = before (Log Warn ''subscription error'' # fst c) r'"
      by auto
    from "3.IH" [OF c False r'] have "reseeded False (fst r')" .
    with q r show ?thesis
      using reseeded_append [of False "Log Warn ''subscription error'' # fst c" "fst r'"]
      by (simp add: before_def)
  qed
next
  case (4 w cfg st h env es)
  let ?o = "onHead (randomWei w) cfg (err st) h env"
  show ?case
  proof (cases "fst (snd ?o) = Panicked")
    case True
    with "4.prems" have "r = (fst ?o, Panicked)" by (simp add: Let_def)
    then show ?thesis by (simp add: reseeded_onHead)
  next
    case False
    with "4.prems" obtain r' where
      r': "eventLoop w cfg (st\<lparr>err := snd (snd ?o)\<rparr>) es = Some r'"
      and r: "r = before (fst ?o) r'"
      by (auto simp: Let_def)
    from "4.IH" [OF refl False r'] have "reseeded False (fst r')" .
    with r show ?thesis
      by (simp add: before_def reseeded_append reseeded_onHead)
  qed
qed

lemma reseeded_main:
  assumes "main w es = Some r"
  shows "reseeded False (fst r)"
proof -
  from assms obtain s where s: "startup w = Some s"
    by (auto simp: main_def split: option.splits)
  have q: "reseeded False (fst s)"
    using quiet_startup [OF s] by (rule reseeded_quiet)
  show ?thesis
  proof (cases "snd s")
    case None
    with assms s q show ?thesis by (auto simp: main_def)
  next
    case (Some l)
    with assms s obtain r' where "eventLoop w (fst l) (snd l) es = Some r'" and "r = before (fst s) r'"
      by (auto simp: main_def)
    with q reseeded_eventLoop [of w "fst l" "snd l" es r'] show ?thesis
      by (simp add: before_def reseeded_append)
  qed
qed


section \<open>A run with two heads\<close>

lemma relay_readSettings: "readSettings (world0 relayEnv) = ([], Some relayCfg)"
  by (simp add: readSettings_def Let_def parseBoolEnvVar_def world0_def relayEnv_def relayCfg_def
      payloadCfg_def)

lemma relay_readConfig: "readConfig (world0 relayEnv) = ([Log Info ''Configuration values''], Some relayCfg)"
  by (simp add: readConfig_def relay_readSettings validateModes_def)
     (simp add: relayCfg_def payloadCfg_def)


lemma relay_rpc_dials:
  "dialRPCIfRelay (world0 relayEnv) relayCfg =
     [DialRPC ''http://rpc'' 30000000000,
      Log Warn ''failed to connect to RPC client, retrying...'', Sleep 10,
      DialRPC ''http://rpc'' 30000000000,
      Log Warn ''failed to connect to RPC client, retrying...'', Sleep 20,
      DialRPC ''http://rpc'' 30000000000,
      Log Warn ''failed to connect to RPC client, retrying...'', Sleep 40,
      DialRPC ''http://rpc'' 30000000000,
      Log Warn ''failed to connect to RPC client, retrying...'', Sleep 80,
      DialRPC ''http://rpc'' 30000000000,
      Log Warn ''failed to connect to RPC client, retrying...'', Sleep 160,
      Log Error ''failed to connect to RPC client after retries'',
      Log Error ''failed to connect to RPC client'',
      Log Info ''(rpc) geth client connected'']"
  by (simp add: dialRPCIfRelay_def connectRPCClientWithRetries_def rpcLoop.simps Let_def
      world0_def relayCfg_def payloadCfg_def neverDials_def noOverflow_def backoff_def pow2Duration_def second_def)

lemma relay_startup:
  "startup (world0 relayEnv) =
     Some ([Log Info ''Configuration values'',
            Authenticate ''k'', NewBidderClient ''mev-commit-bidder:13524'',
            Log Info ''connected to mev-commit client'']
           @ dialRPCIfRelay (world0 relayEnv) relayCfg
           @ [DialWS ''ws://node'', Log Info ''(ws) geth client connected'', SubscribeNewHead],
           Some (relayCfg, \<lparr>wsClient = Some 0, sub = Some 0, err = None, wsDials = 1, subscriptions = 1\<rparr>))"
  by (simp add: startup_def relay_readConfig Let_def connectWSClient.simps)
     (simp add: world0_def alwaysDials_def alwaysSubscribes_def relayCfg_def payloadCfg_def)


lemma relay_head100:
  "onHead fixedWei relayCfg None head100 built101 =
     ([CallSelfETHTransfer 1000000000000000 1,
       Log Info ''Transaction sent successfully'', Log Info ''new block received'',
       SendBundle ''http://rpc'' (Some tx1) 101,
       RandSeed 1700000000000000000,
       Log Info ''sending bid with transaction hash'',
       SendBid \<lparr>bidInput = Hashes [''aa01''], bidAmount = ''500000000000000'', bidBlock = 101,
                decayStart = 1700000000000, decayEnd = 1700000036000\<rparr>,
       Log Info ''sent preconfirmation bid''], Returned, None)"
  by (simp add: onHead_def construct_def sendPreconfBid_def Let_def relayCfg_def payloadCfg_def
      built101_def clock1_def tx1_def fixedWei_def eval_defs)

lemma relay_head101:
  "onHead fixedWei relayCfg None head101 built102 =
     ([CallSelfETHTransfer 1000000000000000 1,
       Log Info ''Transaction sent successfully'', Log Info ''new block received'',
       SendBundle ''http://rpc'' (Some tx2) 102,
       RandSeed 1700000012000000000,
       Log Info ''sending bid with transaction hash'',
       SendBid \<lparr>bidInput = Hashes [''aa02''], bidAmount = ''500000000000000'', bidBlock = 102,
                decayStart = 1700000012000, decayEnd = 1700000048000\<rparr>,
       Log Info ''sent preconfirmation bid''], Returned, None)"
  by (simp add: onHead_def construct_def sendPreconfBid_def Let_def relayCfg_def payloadCfg_def
      built102_def clock2_def tx2_def fixedWei_def eval_defs)


text \<open>
  A run in relay mode with self-transfer: the five RPC dials fail, the stream connects,
  and two heads arrive, each with a signed transaction.
\<close>

lemma two_heads_run:
  "main (world0 relayEnv) [NewHead head100 built101, NewHead head101 built102] =
     Some ([Log Info ''Configuration values'',
            Authenticate ''k'', NewBidderClient ''mev-commit-bidder:13524'',
            Log Info ''connected to mev-commit client'',
            DialRPC ''http://rpc'' 30000000000,
            Log Warn ''failed to connect to RPC client, retrying...'', Sleep 10,
            DialRPC ''http://rpc'' 30000000000,
            Log Warn ''failed to connect to RPC client, retrying...'', Sleep 20,
            DialRPC ''http://rpc'' 30000000000,
            Log Warn ''failed to connect to RPC client, retrying...'', Sleep 40,
            DialRPC ''http://rpc'' 30000000000,
            Log Warn ''failed to connect to RPC client, retrying...'', Sleep 80,
            DialRPC ''http://rpc'' 30000000000,
            Log Warn ''failed to connect to RPC client, retrying...'', Sleep 160,
            Log Error ''failed to connect to RPC client after retries'',
            Log Error ''failed to connect to RPC client'',
            Log Info ''(rpc) geth client connected'',
            DialWS ''ws://node'', Log Info ''(ws) geth client connected'', SubscribeNewHead,
            CallSelfETHTransfer 1000000000000000 1,
            Log Info ''Transaction sent successfully'', Log Info ''new block received'',
            SendBundle ''http://rpc'' (Some tx1) 101,
            RandSeed 1700000000000000000,
            Log Info ''sending bid with transaction hash'',
            SendBid \<lparr>bidInput = Hashes [''aa01''], bidAmount = ''500000000000000'', bidBlock = 101,
                     decayStart = 1700000000000, decayEnd = 1700000036000\<rparr>,
            Log Info ''sent preconfirmation bid'',
            CallSelfETHTransfer 1000000000000000 1,
            Log Info ''Transaction sent successfully'', Log Info ''new block received'',
            SendBundle ''http://rpc'' (Some tx2) 102,
            RandSeed 1700000012000000000,
            Log Info ''sending bid with transaction hash'',
            SendBid \<lparr>bidInput = Hashes [''aa02''], bidAmount = ''500000000000000'', bidBlock = 102,
                     decayStart = 1700000012000, decayEnd = 1700000048000\<rparr>,
            Log Info ''sent preconfirmation bid''], Blocked)"
proof -
  have w: "randomWei (world0 relayEnv) = fixedWei"
    by (simp add: world0_def)
  show ?thesis
    by (simp add: main_def relay_startup relay_rpc_dials w relay_head100 relay_head101 before_def)
qed

text \<open>
  Claim C9, as amended. \<open>sendPreconfBid\<close> seeds the random source at the start of every
  call, from the wall clock in nanoseconds, before the amount is drawn and before the bid
  is submitted: among the seedings and bids of one call there is exactly one seeding,
  first, and at most one bid. So in every run of \<open>main\<close> each submitted bid comes after a
  seeding of its own: between any two bids the source is seeded again.
\<close>

theorem seeded_per_bid:
  "filter seedOrBid (fst (sendPreconfBid rw env input bn)) =
     RandSeed (unixNano (nowSeed env)) # map SendBid (bidsOf (fst (sendPreconfBid rw env input bn))) \<and>
   length (bidsOf (fst (sendPreconfBid rw env input bn))) \<le> 1 \<and>
   (main w es = Some r \<longrightarrow> reseeded False (fst r))"
  using seeds_sendPreconfBid one_bid_sendPreconfBid reseeded_main by blast

theorem seeded_per_bid_witness:
  "main (world0 relayEnv) [NewHead head100 built101, NewHead head101 built102] \<noteq> None \<and>
   reseeded False
     (fst (the (main (world0 relayEnv) [NewHead head100 built101, NewHead head101 built102]))) \<and>
   length (bidsOf
     (fst (the (main (world0 relayEnv) [NewHead head100 built101, NewHead head101 built102])))) = 2"
  using seeded_per_bid [of fixedWei clock1 "RefOther []" 0 "world0 relayEnv"
      "[NewHead head100 built101, NewHead head101 built102]"
      "the (main (world0 relayEnv) [NewHead head100 built101, NewHead head101 built102])"]
  by (simp add: two_heads_run)

text \<open>
  The claim as stated (one seeding per run, none between two bids) fails on the run with
  two heads: its seedings and bids alternate.
\<close>

theorem seeded_once_counterexample:
  "filter seedOrBid
     (fst (the (main (world0 relayEnv) [NewHead head100 built101, NewHead head101 built102]))) =
   [RandSeed 1700000000000000000,
    SendBid \<lparr>bidInput = Hashes [''aa01''], bidAmount = ''500000000000000'', bidBlock = 101,
             decayStart = 1700000000000, decayEnd = 1700000036000\<rparr>,
    RandSeed 1700000012000000000,
    SendBid \<lparr>bidInput = Hashes [''aa02''], bidAmount = ''500000000000000'', bidBlock = 102,
             decayStart = 1700000012000, decayEnd = 1700000048000\<rparr>]"
  by (simp add: two_heads_run)

section \<open>Startup and the mode flags\<close>

lemma startup_fatal_settings:
  assumes "snd (readConfig w) = None"
  shows "startup w = Some (fst (readConfig w), None)"
proof (cases "readConfig w")
  case (Pair evs c)
  with assms show ?thesis by (simp add: startup_def)
qed

lemma startup_config:
  assumes "startup w = Some (evs, Some (cfg, st))"
  shows "snd (readConfig w) = Some cfg"
proof (cases "readConfig w")
  case (Pair evs0 c)
  show ?thesis
  proof (cases c)
    case None
    with assms Pair show ?thesis by (simp add: startup_def)
  next
    case (Some cfg')
    with assms Pair have "cfg' = cfg"
      by (auto simp: startup_def Let_def split: if_splits option.splits)
    with Pair Some show ?thesis by simp
  qed
qed

lemma readConfig_accepted:
  assumes "snd (readConfig w) = Some cfg"
  shows "snd (readSettings w) = Some cfg \<and> \<not> (ethTransfer cfg = ''true'' \<and> blob cfg = ''true'')"
proof (cases "snd (readSettings w)")
  case None
  with assms show ?thesis by (simp add: readConfig_def)
next
  case (Some cfg')
  with assms show ?thesis
    by (auto simp: readConfig_def validateModes_def split: if_splits)
qed

lemma main_fatal_startup:
  assumes "startup w = Some (evs, None)"
  shows "main w es = Some (evs, Exited)"
  using assms by (simp add: main_def)

lemma both_modes_fatal:
  assumes e: "getenv w ''ETH_TRANSFER'' = ''true''" and b: "getenv w ''BLOB'' = ''true''"
  shows "\<exists>m. readConfig w = ([Log Crit m], None)"
    and "snd (readSettings w) \<noteq> None \<Longrightarrow>
         readConfig w = ([Log Crit ''Only one of --ethtransfer or --blob can be set at a time''], None)"
proof -
  have conflict: "readConfig w = ([Log Crit ''Only one of --ethtransfer or --blob can be set at a time''], None)"
    if "snd (readSettings w) = Some cfg" for cfg
    using readSettings_accepted [OF that] that e b
    by (simp add: readConfig_def validateModes_def)
  then show "snd (readSettings w) \<noteq> None \<Longrightarrow>
         readConfig w = ([Log Crit ''Only one of --ethtransfer or --blob can be set at a time''], None)"
    by auto
  show "\<exists>m. readConfig w = ([Log Crit m], None)"
  proof (cases "snd (readSettings w)")
    case None
    with readSettings_fatal [OF None] show ?thesis by (auto simp: readConfig_def)
  next
    case (Some cfg)
    with conflict show ?thesis by blast
  qed
qed

text \<open>
  Claim C6. When both \<open>ETH_TRANSFER\<close> and \<open>BLOB\<close> are \<open>true\<close>, startup ends in \<open>log.Crit\<close>
  and the whole trace of the process is that one log line: no collaborator has been called,
  no connection dialled. The line is the mode conflict whenever the settings read before
  the flags were accepted (otherwise it is the fatal error of the first setting that was
  not). The validation itself always rejects two \<open>true\<close> flags. And every start that reaches
  the event loop has at most one of the two modes on.
\<close>

theorem mode_conflict:
  "(getenv w ''ETH_TRANSFER'' = ''true'' \<and> getenv w ''BLOB'' = ''true'' \<longrightarrow>
      (\<exists>m. startup w = Some ([Log Crit m], None) \<and> (\<forall>es. main w es = Some ([Log Crit m], Exited))) \<and>
      (snd (readSettings w) \<noteq> None \<longrightarrow>
         startup w = Some ([Log Crit ''Only one of --ethtransfer or --blob can be set at a time''], None))) \<and>
   (ethTransfer cfg' = ''true'' \<and> blob cfg' = ''true'' \<longrightarrow>
      validateModes cfg' = ([Log Crit ''Only one of --ethtransfer or --blob can be set at a time''], None)) \<and>
   (startup w = Some (evs, Some (cfg, st)) \<longrightarrow> \<not> (ethTransfer cfg = ''true'' \<and> blob cfg = ''true''))"
proof (intro conjI impI)
  assume both: "getenv w ''ETH_TRANSFER'' = ''true'' \<and> getenv w ''BLOB'' = ''true''"
  then obtain m where m: "readConfig w = ([Log Crit m], None)"
    using both_modes_fatal(1) by blast
  then have "startup w = Some ([Log Crit m], None)"
    using startup_fatal_settings [of w] by simp
  then show "\<exists>m. startup w = Some ([Log Crit m], None) \<and> (\<forall>es. main w es = Some ([Log Crit m], Exited))"
    using main_fatal_startup by blast
  assume "snd (readSettings w) \<noteq> None"
  with both have "readConfig w = ([Log Crit ''Only one of --ethtransfer or --blob can be set at a time''], None)"
    using both_modes_fatal(2) by blast
  then show "startup w = Some ([Log Crit ''Only one of --ethtransfer or --blob can be set at a time''], None)"
    using startup_fatal_settings [of w] by simp
next
  assume "ethTransfer cfg' = ''true'' \<and> blob cfg' = ''true''"
  then show "validateModes cfg' = ([Log Crit ''Only one of --ethtransfer or --blob can be set at a time''], None)"
    by (simp add: validateModes_def)
next
  assume "startup w = Some (evs, Some (cfg, st))"
  from readConfig_accepted [OF startup_config [OF this]]
  show "\<not> (ethTransfer cfg = ''true'' \<and> blob cfg = ''true'')" by simp
qed

lemma both_modes_readSettings:
  "readSettings (world0 bothModesEnv) = ([], Some (relayCfg\<lparr>blob := ''true''\<rparr>))"
  by (simp add: readSettings_def Let_def parseBoolEnvVar_def world0_def bothModesEnv_def relayEnv_def
      relayCfg_def payloadCfg_def)

theorem mode_conflict_witness:
  "getenv (world0 bothModesEnv) ''ETH_TRANSFER'' = ''true'' \<and>
   getenv (world0 bothModesEnv) ''BLOB'' = ''true'' \<and>
   snd (readSettings (world0 bothModesEnv)) \<noteq> None \<and>
   startup (world0 bothModesEnv) =
     Some ([Log Crit ''Only one of --ethtransfer or --blob can be set at a time''], None) \<and>
   main (world0 bothModesEnv) [NewHead head100 built101] =
     Some ([Log Crit ''Only one of --ethtransfer or --blob can be set at a time''], Exited) \<and>
   snd (the (startup (world0 relayEnv))) =
     Some (relayCfg, \<lparr>wsClient = Some 0, sub = Some 0, err = None, wsDials = 1, subscriptions = 1\<rparr>) \<and>
   ethTransfer relayCfg = ''true'' \<and> blob relayCfg \<noteq> ''true''"
proof -
  have flags: "getenv (world0 bothModesEnv) ''ETH_TRANSFER'' = ''true'' \<and>
      getenv (world0 bothModesEnv) ''BLOB'' = ''true''"
    by (simp add: world0_def bothModesEnv_def relayEnv_def)
  have settings: "snd (readSettings (world0 bothModesEnv)) \<noteq> None"
    by (simp add: both_modes_readSettings)
  have loop: "snd (the (startup (world0 relayEnv))) =
     Some (relayCfg, \<lparr>wsClient = Some 0, sub = Some 0, err = None, wsDials = 1, subscriptions = 1\<rparr>)"
    by (simp add: relay_startup)
  have modes: "ethTransfer relayCfg = ''true'' \<and> blob relayCfg \<noteq> ''true''"
    by (simp add: relayCfg_def payloadCfg_def)
  from mode_conflict [of "world0 bothModesEnv" relayCfg _ relayCfg] flags settings loop modes
  show ?thesis
    by (auto simp: main_def)
qed


lemma conflict_only_when_both:
  assumes "Log Crit ''Only one of --ethtransfer or --blob can be set at a time'' \<in> set (fst (readConfig w))"
  shows "getenv w ''ETH_TRANSFER'' = ''true'' \<and> getenv w ''BLOB'' = ''true''"
proof (cases "snd (readSettings w)")
  case None
  from readSettings_fatal [OF None] obtain m where m: "readSettings w = ([Log Crit m], None)"
    by blast
  have "m \<noteq> ''Only one of --ethtransfer or --blob can be set at a time''"
  proof
    assume "m = ''Only one of --ethtransfer or --blob can be set at a time''"
    with m have *: "readSettings w = ([Log Crit ''Only one of --ethtransfer or --blob can be set at a time''], None)"
      by simp
    show False
    proof (cases "dotenvErr w")
      case True
      with * show False by (simp add: readSettings_def)
    next
      case False
      show False
      proof (cases "if getenv w ''USE_PAYLOAD'' \<noteq> [] then parseBoolEnvVar ''USE_PAYLOAD'' (getenv w ''USE_PAYLOAD'')
                    else Inr True")
        case (Inl e)
        with False * show False by (simp add: readSettings_def Let_def)
      next
        case (Inr up)
        show False
        proof (cases "if getenv w ''OFFSET'' \<noteq> [] then parseUintEnvVar ''OFFSET'' (getenv w ''OFFSET'')
                      else Inr 1")
          case (Inl e)
          with False Inr * show False by (simp add: readSettings_def Let_def split: if_splits)
        next
          case off: (Inr off)
          with False Inr * show False by (simp add: readSettings_def Let_def split: if_splits)
        qed
      qed
    qed
  qed
  with assms m None show ?thesis by (simp add: readConfig_def)
next
  case (Some cfg)
  with assms readSettings_accepted [OF Some] show ?thesis
    by (auto simp: readConfig_def validateModes_def split: if_splits)
qed

text \<open>
  Claim C10. The mode conflict is reported only when both flags are \<open>true\<close>. A configuration
  with neither mode on passes the validation; then for every head no builder is called,
  the signed transaction stays nil, the block number zero, and the iteration goes on to
  the submission: in payload mode \<open>sendPreconfBid\<close> is called with the nil transaction as
  its reference (and panics on it after seeding), in relay mode the nil transaction is
  handed to \<open>SendBundle\<close> and the iteration panics taking its hash for the bid.
\<close>

theorem no_mode_configured:
  "(Log Crit ''Only one of --ethtransfer or --blob can be set at a time'' \<in> set (fst (readConfig w)) \<longrightarrow>
      getenv w ''ETH_TRANSFER'' = ''true'' \<and> getenv w ''BLOB'' = ''true'') \<and>
   (ethTransfer cfg \<noteq> ''true'' \<and> blob cfg \<noteq> ''true'' \<longrightarrow>
      validateModes cfg = ([Log Info ''Configuration values''], Some cfg) \<and>
      construct cfg e env = ([], (None, 0, e)) \<and>
      sendPreconfBid rw (bidEnv env) (RefTx None) 0 =
        ([RandSeed (unixNano (nowSeed (bidEnv env)))], Panicked) \<and>
      (usePayload cfg \<longrightarrow>
         onHead rw cfg e h env =
           ([Log Error ''Transaction was not signed or created.'']
            @ (if e \<noteq> None then [Log Error ''failed to execute transaction''] else [])
            @ [Log Info ''new block received'']
            @ fst (sendPreconfBid rw (bidEnv env) (RefTx None) 0), Panicked, e)) \<and>
      (\<not> usePayload cfg \<longrightarrow>
         onHead rw cfg e h env =
           ([Log Error ''Transaction was not signed or created.'']
            @ (if e \<noteq> None then [Log Error ''failed to execute transaction''] else [])
            @ [Log Info ''new block received'', SendBundle (rpcEndpoint cfg) None 0]
            @ (if bundleErr env \<noteq> None then [Log Error ''Failed to send transaction''] else []),
            Panicked, bundleErr env)))"
proof (intro conjI impI)
  assume "Log Crit ''Only one of --ethtransfer or --blob can be set at a time'' \<in> set (fst (readConfig w))"
  then show "getenv w ''ETH_TRANSFER'' = ''true''" and "getenv w ''BLOB'' = ''true''"
    using conflict_only_when_both by blast+
next
  assume none: "ethTransfer cfg \<noteq> ''true'' \<and> blob cfg \<noteq> ''true''"
  then show "validateModes cfg = ([Log Info ''Configuration values''], Some cfg)"
    by (simp add: validateModes_def)
  from none show c: "construct cfg e env = ([], (None, 0, e))"
    by (simp add: construct_def)
  show s: "sendPreconfBid rw (bidEnv env) (RefTx None) 0 =
        ([RandSeed (unixNano (nowSeed (bidEnv env)))], Panicked)"
    by (simp add: sendPreconfBid_def Let_def)
  {
    assume "usePayload cfg"
    then show "onHead rw cfg e h env =
           ([Log Error ''Transaction was not signed or created.'']
            @ (if e \<noteq> None then [Log Error ''failed to execute transaction''] else [])
            @ [Log Info ''new block received'']
            @ fst (sendPreconfBid rw (bidEnv env) (RefTx None) 0), Panicked, e)"
      by (simp add: onHead_def Let_def c s)
  }
  {
    assume "\<not> usePayload cfg"
    then show "onHead rw cfg e h env =
           ([Log Error ''Transaction was not signed or created.'']
            @ (if e \<noteq> None then [Log Error ''failed to execute transaction''] else [])
            @ [Log Info ''new block received'', SendBundle (rpcEndpoint cfg) None 0]
            @ (if bundleErr env \<noteq> None then [Log Error ''Failed to send transaction''] else []),
            Panicked, bundleErr env)"
      by (simp add: onHead_def Let_def c)
  }
qed

lemma no_mode_readConfig:
  "readConfig (world0 noModeEnv) =
     ([Log Info ''Configuration values''], Some (payloadCfg\<lparr>ethTransfer := []\<rparr>))"
proof -
  have "readSettings (world0 noModeEnv) = ([], Some (payloadCfg\<lparr>ethTransfer := []\<rparr>))"
    by (simp add: readSettings_def Let_def world0_def noModeEnv_def relayEnv_def payloadCfg_def)
  then show ?thesis
    by (simp add: readConfig_def validateModes_def payloadCfg_def)
qed

theorem no_mode_configured_witness:
  "readConfig (world0 noModeEnv) =
     ([Log Info ''Configuration values''], Some (payloadCfg\<lparr>ethTransfer := []\<rparr>)) \<and>
   onHead fixedWei (payloadCfg\<lparr>ethTransfer := []\<rparr>) None head100 built101 =
     ([Log Error ''Transaction was not signed or created.'', Log Info ''new block received'',
       RandSeed 1700000000000000000], Panicked, None) \<and>
   onHead fixedWei (relayCfg\<lparr>ethTransfer := []\<rparr>) None head100 built101 =
     ([Log Error ''Transaction was not signed or created.'', Log Info ''new block received'',
       SendBundle ''http://rpc'' None 0], Panicked, None) \<and>
   getenv (world0 bothModesEnv) ''ETH_TRANSFER'' = ''true'' \<and>
   getenv (world0 bothModesEnv) ''BLOB'' = ''true''"
proof -
  have p: "ethTransfer (payloadCfg\<lparr>ethTransfer := []\<rparr>) \<noteq> ''true'' \<and>
      blob (payloadCfg\<lparr>ethTransfer := []\<rparr>) \<noteq> ''true'' \<and> usePayload (payloadCfg\<lparr>ethTransfer := []\<rparr>)"
    by (simp add: payloadCfg_def)
  have r: "ethTransfer (relayCfg\<lparr>ethTransfer := []\<rparr>) \<noteq> ''true'' \<and>
      blob (relayCfg\<lparr>ethTransfer := []\<rparr>) \<noteq> ''true'' \<and> \<not> usePayload (relayCfg\<lparr>ethTransfer := []\<rparr>) \<and>
      rpcEndpoint (relayCfg\<lparr>ethTransfer := []\<rparr>) = ''http://rpc''"
    by (simp add: relayCfg_def payloadCfg_def)
  have env: "bundleErr built101 = None \<and> unixNano (nowSeed (bidEnv built101)) = 1700000000000000000"
    by (simp add: built101_def clock1_def unixNano_def)
  have conflict: "Log Crit ''Only one of --ethtransfer or --blob can be set at a time''
      \<in> set (fst (readConfig (world0 bothModesEnv)))"
    by (simp add: readConfig_def both_modes_readSettings validateModes_def)
       (simp add: relayCfg_def payloadCfg_def)
  from no_mode_configured [of "world0 bothModesEnv" "payloadCfg\<lparr>ethTransfer := []\<rparr>" None built101 fixedWei head100]
    no_mode_configured [of "world0 bothModesEnv" "relayCfg\<lparr>ethTransfer := []\<rparr>" None built101 fixedWei head100]
    p r env conflict no_mode_readConfig
  show ?thesis by simp
qed

text \<open>
  Claim C5 says that a head whose construction yields a nil transaction is not bid for. The
  code, on a head for which the builder returns no transaction and an error: it logs both
  and goes on to the submission. In payload mode \<open>sendPreconfBid\<close> is called with the nil
  transaction, seeds, and panics on it; in relay mode the nil transaction is handed to
  \<open>SendBundle\<close> and the iteration panics taking its hash.
\<close>

theorem nil_transaction_still_submitted:
  "onHead fixedWei payloadCfg None head100 failedBuild =
     ([CallSelfETHTransfer 1000000000000000 1,
       Log Error ''Transaction was not signed or created.'',
       Log Error ''failed to execute transaction'',
       Log Info ''new block received'']
      @ fst (sendPreconfBid fixedWei clock1 (RefTx None) 0), Panicked, Some ''insufficient funds'') \<and>
   sendPreconfBid fixedWei clock1 (RefTx None) 0 = ([RandSeed 1700000000000000000], Panicked) \<and>
   onHead fixedWei relayCfg None head100 failedBuild =
     ([CallSelfETHTransfer 1000000000000000 1,
       Log Error ''Transaction was not signed or created.'',
       Log Error ''failed to execute transaction'',
       Log Info ''new block received'',
       SendBundle ''http://rpc'' None 0], Panicked, None)"
  by (simp add: onHead_def construct_def sendPreconfBid_def Let_def payloadCfg_def relayCfg_def
      failedBuild_def clock1_def unixNano_def)

section \<open>Reconnecting\<close>

lemma five_not_ten: "5 * second \<noteq> 10 * second"
  by (simp add: second_def)

lemma connectWSClient_result:
  assumes "connectWSClient dial ep k = Some r"
  shows "snd (fst (snd r)) = None \<and> fst (fst (snd r)) \<noteq> None \<and>
         count_list (fst r) SubscribeNewHead = 0 \<and> count_list (fst r) (Sleep (5 * second)) = 0"
proof (rule connectWSClient.raw_induct [where P = "\<lambda>dial ep k r.
    snd (fst (snd r)) = None \<and> fst (fst (snd r)) \<noteq> None \<and>
    count_list (fst r) SubscribeNewHead = 0 \<and> count_list (fst r) (Sleep (5 * second)) = 0", OF _ assms])
  fix connect :: "(nat \<Rightarrow> client option) \<Rightarrow> string \<Rightarrow> nat \<Rightarrow> (event list \<times> (client option \<times> string option) \<times> nat) option"
  fix dial ep k r
  assume IH: "\<And>dial ep k r. connect dial ep k = Some r \<Longrightarrow>
      snd (fst (snd r)) = None \<and> fst (fst (snd r)) \<noteq> None \<and>
      count_list (fst r) SubscribeNewHead = 0 \<and> count_list (fst r) (Sleep (5 * second)) = 0"
    and step: "(case dial k of
      None \<Rightarrow> Option.bind (connect dial ep (Suc k))
         (\<lambda>r. Some ([DialWS ep, Log Warn ''failed to connect to websocket client'', Sleep (10 * second)] @ fst r, snd r))
      | Some c \<Rightarrow> Some ([DialWS ep], (Some c, None), Suc k)) = Some r"
  show "snd (fst (snd r)) = None \<and> fst (fst (snd r)) \<noteq> None \<and>
      count_list (fst r) SubscribeNewHead = 0 \<and> count_list (fst r) (Sleep (5 * second)) = 0"
  proof (cases "dial k")
    case None
    with step obtain r' where "connect dial ep (Suc k) = Some r'"
      and "r = ([DialWS ep, Log Warn ''failed to connect to websocket client'', Sleep (10 * second)] @ fst r', snd r')"
      by (auto simp: bind_eq_Some_conv)
    with IH [of dial ep "Suc k" r'] five_not_ten show ?thesis by simp
  next
    case (Some c)
    with step show ?thesis by auto
  qed
qed

lemma connectWSClient_returns:
  "dial (k + n) \<noteq> None \<Longrightarrow> \<exists>r. connectWSClient dial ep k = Some r"
proof (induction n arbitrary: k)
  case 0
  then show ?case by (auto simp: connectWSClient.simps [of dial ep k])
next
  case (Suc n)
  show ?case
  proof (cases "dial k")
    case None
    from Suc.prems have "dial (Suc k + n) \<noteq> None" by simp
    from Suc.IH [OF this] obtain r where "connectWSClient dial ep (Suc k) = Some r" by blast
    with None show ?thesis by (simp add: connectWSClient.simps [of dial ep k])
  next
    case (Some c)
    then show ?thesis by (simp add: connectWSClient.simps [of dial ep k])
  qed
qed

text \<open>One round of the loop, read off its definition.\<close>

lemma reconnectLoop_done:
  "\<not> i < 10 \<Longrightarrow> reconnectLoop dial subscribe ep i k j =
     Some ([Log Crit ''failed to reconnect WebSocket client after retries''], Exited, (None, None), k, j)"
  by (simp add: reconnectLoop.simps)

lemma reconnectLoop_round:
  assumes "i < 10" and "connectWSClient dial ep k = Some c"
  shows "reconnectLoop dial subscribe ep i k j =
     (case subscribe j of
        Some s \<Rightarrow> Some (fst c @ [Log Info ''(ws) geth client reconnected'', SubscribeNewHead],
                        Returned, (fst (fst (snd c)), Some s), snd (snd c), Suc j)
      | None \<Rightarrow> map_option
                  (before (fst c @ [Log Info ''(ws) geth client reconnected'', SubscribeNewHead,
                                    Log Warn ''failed to reconnect WebSocket client, retrying...'',
                                    Sleep (5 * second)]))
                  (reconnectLoop dial subscribe ep (Suc i) (snd (snd c)) (Suc j)))"
proof -
  obtain evs wsClient err k' where c: "c = (evs, (wsClient, err), k')"
    by (metis prod.collapse)
  with connectWSClient_result [OF assms(2)] have "err = None" by simp
  with assms c show ?thesis
    by (cases "subscribe j") (simp_all add: reconnectLoop.simps [of dial subscribe ep i k j])
qed

lemma reconnectLoop_diverges:
  "i < 10 \<Longrightarrow> connectWSClient dial ep k = None \<Longrightarrow> reconnectLoop dial subscribe ep i k j = None"
  by (simp add: reconnectLoop.simps [of dial subscribe ep i k j])


lemma reconnectLoop_attempts:
  "reconnectLoop dial subscribe ep i k j = Some (evs, s, cs, k', j') \<Longrightarrow> i \<le> 10 \<Longrightarrow>
     count_list evs SubscribeNewHead \<le> 10 - i \<and>
     j' = j + count_list evs SubscribeNewHead \<and>
     (s = Returned \<or> s = Exited) \<and>
     (s = Returned \<longrightarrow>
        Suc (count_list evs (Sleep (5 * second))) = count_list evs SubscribeNewHead \<and>
        subscribe (j' - 1) = snd cs \<and> snd cs \<noteq> None \<and> fst cs \<noteq> None) \<and>
     (s = Exited \<longrightarrow>
        count_list evs SubscribeNewHead = 10 - i \<and>
        count_list evs (Sleep (5 * second)) = 10 - i \<and>
        (\<exists>pre. evs = pre @ [Log Crit ''failed to reconnect WebSocket client after retries'']) \<and>
        cs = (None, None) \<and> (\<forall>m < 10 - i. subscribe (j + m) = None))"
proof (induction "10 - i" arbitrary: i k j evs s cs k' j')
  case 0
  then have "\<not> i < 10" by simp
  from 0(2) reconnectLoop_done [OF this, of dial subscribe ep k j] 0(1)
  show ?case by auto
next
  case (Suc d)
  then have i: "i < 10" and d: "d = 10 - Suc i" by simp_all
  from Suc.prems(1) i obtain c where c: "connectWSClient dial ep k = Some c"
    using reconnectLoop_diverges [of i dial ep k subscribe j] by (cases "connectWSClient dial ep k") auto
  note r = connectWSClient_result [OF c]
  note round = reconnectLoop_round [OF i c, of subscribe j]
  show ?case
  proof (cases "subscribe j")
    case (Some sb)
    with round Suc.prems(1) r i show ?thesis by auto
  next
    case None
    with round Suc.prems(1) have
      "map_option
         (before (fst c @ [Log Info ''(ws) geth client reconnected'', SubscribeNewHead,
                           Log Warn ''failed to reconnect WebSocket client, retrying...'',
                           Sleep (5 * second)]))
         (reconnectLoop dial subscribe ep (Suc i) (snd (snd c)) (Suc j)) = Some (evs, s, cs, k', j')"
      by simp
    then obtain r' where
      r': "reconnectLoop dial subscribe ep (Suc i) (snd (snd c)) (Suc j) = Some r'"
      and res: "before (fst c @ [Log Info ''(ws) geth client reconnected'', SubscribeNewHead,
                           Log Warn ''failed to reconnect WebSocket client, retrying...'',
                           Sleep (5 * second)]) r' = (evs, s, cs, k', j')"
      by (auto simp: map_option_eq_Some)
    obtain evs' where evs': "r' = (evs', s, cs, k', j')"
      and evs: "evs = fst c @ [Log Info ''(ws) geth client reconnected'', SubscribeNewHead,
                           Log Warn ''failed to reconnect WebSocket client, retrying...'',
                           Sleep (5 * second)] @ evs'"
      using res by (cases r') (auto simp: before_def)
    from i have i': "Suc i \<le> 10" by simp
    note IH = Suc.hyps(1) [OF d r' [unfolded evs'] i']
    have cnt: "count_list evs SubscribeNewHead = Suc (count_list evs' SubscribeNewHead)"
      and slp: "count_list evs (Sleep (5 * second)) = Suc (count_list evs' (Sleep (5 * second)))"
      using r by (simp_all add: evs)
    have lst: "s = Exited \<longrightarrow>
        (\<exists>pre. evs = pre @ [Log Crit ''failed to reconnect WebSocket client after retries''])"
    proof
      assume "s = Exited"
      with IH obtain pre where "evs' = pre @ [Log Crit ''failed to reconnect WebSocket client after retries'']"
        by blast
      then have "evs = (fst c @ [Log Info ''(ws) geth client reconnected'', SubscribeNewHead,
                           Log Warn ''failed to reconnect WebSocket client, retrying...'',
                           Sleep (5 * second)] @ pre) @ [Log Crit ''failed to reconnect WebSocket client after retries'']"
        by (simp add: evs)
      then show "\<exists>pre. evs = pre @ [Log Crit ''failed to reconnect WebSocket client after retries'']"
        by blast
    qed
    have all: "s = Exited \<longrightarrow> (\<forall>m < 10 - i. subscribe (j + m) = None)"
    proof (intro impI allI)
      fix m assume "s = Exited" and m: "m < 10 - i"
      with IH have *: "\<forall>m < 10 - Suc i. subscribe (Suc j + m) = None" by simp
      show "subscribe (j + m) = None"
      proof (cases m)
        case 0
        with None show ?thesis by simp
      next
        case (Suc m')
        with m * show ?thesis by simp
      qed
    qed
    from IH cnt slp lst all i show ?thesis
      by auto
  qed
qed


lemma reconnectLoop_returns:
  assumes live: "\<forall>k. \<exists>n. dial (k + n) \<noteq> None"
  shows "reconnectLoop dial subscribe ep i k j \<noteq> None"
proof (induction "10 - i" arbitrary: i k j)
  case 0
  then have "\<not> i < 10" by simp
  from reconnectLoop_done [OF this] show ?case by simp
next
  case (Suc d)
  then have i: "i < 10" and d: "d = 10 - Suc i" by simp_all
  from live obtain n where "dial (k + n) \<noteq> None" by blast
  then obtain c where c: "connectWSClient dial ep k = Some c"
    using connectWSClient_returns [of dial k n ep] by blast
  from Suc.hyps(1) [OF d] reconnectLoop_round [OF i c, of subscribe j] show ?case
    by (cases "subscribe j") auto
qed

text \<open>
  Claim C7. A reconnection round is one \<open>connectWSClient\<close> followed by one
  \<open>SubscribeNewHead\<close>. Whenever \<open>reconnectWSClient\<close> returns it has made at most 10 rounds,
  and it has slept 5 seconds after every round that failed. It returns with the new
  client and subscription after the first round that succeeds; it ends the process with
  \<open>log.Crit\<close> exactly when 10 rounds have failed, after 10 rounds and 10 sleeps, with no
  further round. It does return whenever every \<open>connectWSClient\<close> does (a dial succeeds
  eventually), and then 10 failing subscriptions end the process; the event loop ends
  with it.
\<close>

theorem reconnect_bound:
  "(reconnectWSClient dial subscribe ep k j = Some (evs, s, cs, k', j') \<longrightarrow>
      count_list evs SubscribeNewHead \<le> 10 \<and>
      j' = j + count_list evs SubscribeNewHead \<and>
      (s = Returned \<or> s = Exited) \<and>
      (s = Returned \<longrightarrow>
         Suc (count_list evs (Sleep (5 * second))) = count_list evs SubscribeNewHead \<and>
         subscribe (j' - 1) = snd cs \<and> snd cs \<noteq> None \<and> fst cs \<noteq> None) \<and>
      (s = Exited \<longrightarrow>
         count_list evs SubscribeNewHead = 10 \<and>
         count_list evs (Sleep (5 * second)) = 10 \<and>
         (\<exists>pre. evs = pre @ [Log Crit ''failed to reconnect WebSocket client after retries'']) \<and>
         cs = (None, None) \<and> (\<forall>m < 10. subscribe (j + m) = None))) \<and>
   ((\<forall>k. \<exists>n. dial (k + n) \<noteq> None) \<longrightarrow> reconnectWSClient dial subscribe ep k j \<noteq> None) \<and>
   ((\<forall>k. \<exists>n. dial (k + n) \<noteq> None) \<and> (\<forall>m < 10. subscribe (j + m) = None) \<longrightarrow>
      (\<exists>evs k'. reconnectWSClient dial subscribe ep k j = Some (evs, Exited, (None, None), k', j + 10))) \<and>
   (reconnectWSClient (dialWS w) (subscribeHead w) (wsEndpoint cfg) (wsDials st) (subscriptions st) =
      Some (evs, Exited, cs, k', j') \<longrightarrow>
      eventLoop w cfg st (SubscriptionError # es) = Some (Log Warn ''subscription error'' # evs, Exited))"
proof (intro conjI)
  show a: "reconnectWSClient dial subscribe ep k j = Some (evs, s, cs, k', j') \<longrightarrow>
      count_list evs SubscribeNewHead \<le> 10 \<and>
      j' = j + count_list evs SubscribeNewHead \<and>
      (s = Returned \<or> s = Exited) \<and>
      (s = Returned \<longrightarrow>
         Suc (count_list evs (Sleep (5 * second))) = count_list evs SubscribeNewHead \<and>
         subscribe (j' - 1) = snd cs \<and> snd cs \<noteq> None \<and> fst cs \<noteq> None) \<and>
      (s = Exited \<longrightarrow>
         count_list evs SubscribeNewHead = 10 \<and>
         count_list evs (Sleep (5 * second)) = 10 \<and>
         (\<exists>pre. evs = pre @ [Log Crit ''failed to reconnect WebSocket client after retries'']) \<and>
         cs = (None, None) \<and> (\<forall>m < 10. subscribe (j + m) = None))"
    for evs s cs k' j'
    using reconnectLoop_attempts [of dial subscribe ep 0 k j evs s cs k' j']
    by (simp add: reconnectWSClient_def)
  show b: "(\<forall>k. \<exists>n. dial (k + n) \<noteq> None) \<longrightarrow> reconnectWSClient dial subscribe ep k j \<noteq> None"
    using reconnectLoop_returns [of dial subscribe ep 0 k j]
    by (simp add: reconnectWSClient_def)
  show "(\<forall>k. \<exists>n. dial (k + n) \<noteq> None) \<and> (\<forall>m < 10. subscribe (j + m) = None) \<longrightarrow>
      (\<exists>evs k'. reconnectWSClient dial subscribe ep k j = Some (evs, Exited, (None, None), k', j + 10))"
  proof
    assume h: "(\<forall>k. \<exists>n. dial (k + n) \<noteq> None) \<and> (\<forall>m < 10. subscribe (j + m) = None)"
    with b obtain evs s cs k' j' where
      r: "reconnectWSClient dial subscribe ep k j = Some (evs, s, cs, k', j')"
      by (metis not_None_eq prod.collapse)
    note p = a [of evs s cs k' j', rule_format, OF r]
    have "s \<noteq> Returned"
    proof
      assume s: "s = Returned"
      with p have n: "subscribe (j' - 1) \<noteq> None" and c: "0 < count_list evs SubscribeNewHead"
        and le: "count_list evs SubscribeNewHead \<le> 10" and j': "j' = j + count_list evs SubscribeNewHead"
        by auto
      from c le j' have "j' - 1 = j + (count_list evs SubscribeNewHead - 1)"
        and "count_list evs SubscribeNewHead - 1 < 10" by simp_all
      with h n show False by metis
    qed
    with p have "s = Exited" and "cs = (None, None)" and "j' = j + 10" by auto
    with r show "\<exists>evs k'. reconnectWSClient dial subscribe ep k j = Some (evs, Exited, (None, None), k', j + 10)"
      by blast
  qed
  show "reconnectWSClient (dialWS w) (subscribeHead w) (wsEndpoint cfg) (wsDials st) (subscriptions st) =
      Some (evs, Exited, cs, k', j') \<longrightarrow>
      eventLoop w cfg st (SubscriptionError # es) = Some (Log Warn ''subscription error'' # evs, Exited)"
    by simp
qed

lemma reconnect_gives_up_run:
  "reconnectWSClient alwaysDials neverSubscribes ''ws://node'' 1 1 =
     Some (concat (replicate 10
             [DialWS ''ws://node'', Log Info ''(ws) geth client reconnected'', SubscribeNewHead,
              Log Warn ''failed to reconnect WebSocket client, retrying...'', Sleep 5000000000])
           @ [Log Crit ''failed to reconnect WebSocket client after retries''],
           Exited, (None, None), 11, 11)"
  by (simp add: reconnectWSClient_def reconnectLoop.simps connectWSClient.simps alwaysDials_def
      neverSubscribes_def before_def second_def eval_nat_numeral cong: old.prod.case_cong_weak)

theorem reconnect_bound_witness:
  "reconnectWSClient alwaysDials neverSubscribes ''ws://node'' 1 1 =
     Some (concat (replicate 10
             [DialWS ''ws://node'', Log Info ''(ws) geth client reconnected'', SubscribeNewHead,
              Log Warn ''failed to reconnect WebSocket client, retrying...'', Sleep 5000000000])
           @ [Log Crit ''failed to reconnect WebSocket client after retries''],
           Exited, (None, None), 11, 11) \<and>
   count_list (concat (replicate 10
             [DialWS ''ws://node'', Log Info ''(ws) geth client reconnected'', SubscribeNewHead,
              Log Warn ''failed to reconnect WebSocket client, retrying...'', Sleep 5000000000])
           @ [Log Crit ''failed to reconnect WebSocket client after retries'']) SubscribeNewHead = 10 \<and>
   count_list (concat (replicate 10
             [DialWS ''ws://node'', Log Info ''(ws) geth client reconnected'', SubscribeNewHead,
              Log Warn ''failed to reconnect WebSocket client, retrying...'', Sleep 5000000000])
           @ [Log Crit ''failed to reconnect WebSocket client after retries'']) (Sleep (5 * second)) = 10 \<and>
   alwaysDials (3 + 0) \<noteq> None \<and> neverSubscribes (1 + 4) = None \<and>
   eventLoop (world0 relayEnv\<lparr>subscribeHead := neverSubscribes\<rparr>) relayCfg
      \<lparr>wsClient = Some 0, sub = Some 0, err = None, wsDials = 1, subscriptions = 1\<rparr>
      [SubscriptionError, NewHead head100 built101] =
     Some (Log Warn ''subscription error'' #
           concat (replicate 10
             [DialWS ''ws://node'', Log Info ''(ws) geth client reconnected'', SubscribeNewHead,
              Log Warn ''failed to reconnect WebSocket client, retrying...'', Sleep 5000000000])
           @ [Log Crit ''failed to reconnect WebSocket client after retries''], Exited)"
proof -
  let ?evs = "concat (replicate 10
             [DialWS ''ws://node'', Log Info ''(ws) geth client reconnected'', SubscribeNewHead,
              Log Warn ''failed to reconnect WebSocket client, retrying...'', Sleep 5000000000])
           @ [Log Crit ''failed to reconnect WebSocket client after retries'']"
  let ?w = "world0 relayEnv\<lparr>subscribeHead := neverSubscribes\<rparr>"
  let ?st = "\<lparr>wsClient = Some 0, sub = Some 0, err = None, wsDials = 1, subscriptions = 1\<rparr>"
  have live: "\<forall>k. \<exists>n. alwaysDials (k + n) \<noteq> None"
    by (simp add: alwaysDials_def)
  have dead: "\<forall>m < 10. neverSubscribes (1 + m) = None"
    by (simp add: neverSubscribes_def)
  have w: "reconnectWSClient (dialWS ?w) (subscribeHead ?w) (wsEndpoint relayCfg) (wsDials ?st) (subscriptions ?st) =
      Some (?evs, Exited, (None, None), 11, 11)"
    using reconnect_gives_up_run by (simp add: world0_def relayCfg_def payloadCfg_def)
  from reconnect_bound [of alwaysDials neverSubscribes "''ws://node''" 1 1 ?evs Exited "(None, None)" 11 11
      ?w relayCfg ?st "[NewHead head100 built101]"]
    reconnect_gives_up_run live dead w
  show ?thesis
    by (simp add: alwaysDials_def neverSubscribes_def)
qed

section \<open>Dialling the RPC endpoint\<close>

lemma rpcLoop_success:
  "int j < m \<Longrightarrow> dial j = Some c \<Longrightarrow> rpcLoop ovf dial ep m t j = ([DialRPC ep t], Some c)"
  by (simp add: rpcLoop.simps [of ovf dial ep m t j])

lemma rpcLoop_exhausted:
  "\<not> int j < m \<Longrightarrow>
     rpcLoop ovf dial ep m t j = ([Log Error ''failed to connect to RPC client after retries''], None)"
  by (simp add: rpcLoop.simps [of ovf dial ep m t j])

lemma rpcLoop_failure:
  "int i < m \<Longrightarrow> dial i = None \<Longrightarrow>
     rpcLoop ovf dial ep m t i =
       before [DialRPC ep t, Log Warn ''failed to connect to RPC client, retrying...'',
               Sleep (backoff ovf i)]
         (rpcLoop ovf dial ep m t (Suc i))"
  by (simp add: rpcLoop.simps [of ovf dial ep m t i] before_def split: prod.split)

lemma rpcLoop_failures:
  "i \<le> j \<Longrightarrow> int j \<le> m \<Longrightarrow> (\<forall>x. i \<le> x \<and> x < j \<longrightarrow> dial x = None) \<Longrightarrow>
     rpcLoop ovf dial ep m t i =
       before (concat (map (\<lambda>i. [DialRPC ep t, Log Warn ''failed to connect to RPC client, retrying...'',
                                   Sleep (backoff ovf i)]) [i..<j]))
         (rpcLoop ovf dial ep m t j)"
proof (induction "j - i" arbitrary: i)
  case 0
  then show ?case by (simp add: before_def)
next
  case (Suc d)
  then have lt: "i < j" and d: "d = j - Suc i" by simp_all
  with Suc.prems have m: "int i < m" and none: "dial i = None" by simp_all
  from lt have le: "Suc i \<le> j" by simp
  have rest: "\<forall>x. Suc i \<le> x \<and> x < j \<longrightarrow> dial x = None"
    using Suc.prems(3) by simp
  from Suc.hyps(1) [OF d le Suc.prems(2) rest] rpcLoop_failure [of i m dial ovf ep t] m none lt
  show ?case
    by (simp add: before_def upt_conv_Cons)
qed

lemma rpcLoop_attempts:
  "count_list (fst (rpcLoop ovf dial ep m t i)) (DialRPC ep t) \<le> nat (m - int i)"
proof (induction ovf dial ep m t i rule: rpcLoop.induct)
  case (1 ovf dial ep m t i)
  show ?case
  proof (cases "int i < m")
    case False
    then show ?thesis by (simp add: rpcLoop_exhausted)
  next
    case True
    show ?thesis
    proof (cases "dial i")
      case None
      from "1.IH" [OF True None] True show ?thesis
        by (simp add: rpcLoop_failure [of i m dial ovf ep t] None before_def)
    next
      case (Some c)
      with True show ?thesis by (simp add: rpcLoop_success)
    qed
  qed
qed

lemma sint_backoff:
  assumes "i < 60"
  shows "sint (backoff ovf i) = 10 * 2 ^ i"
proof -
  from assms have "(2::int) ^ i \<le> 2 ^ 59"
    by (intro power_increasing) simp_all
  then have hi: "(10::int) * 2 ^ i < 2 ^ 63" by simp
  have "- (2 ^ 63) \<le> (0::int)" and "(0::int) \<le> 10 * 2 ^ i" by simp_all
  then have lo: "- (2 ^ 63) \<le> (10::int) * 2 ^ i" by (rule order_trans)
  have "backoff ovf i = word_of_int (10 * 2 ^ i)"
    using assms by (simp add: backoff_def pow2Duration_def)
  with lo hi show ?thesis
    by (simp only: sint_word_of_int64)
qed


lemma startup_enters_loop:
  assumes cfg: "snd (readConfig w) = Some cfg"
    and auth: "\<not> authErr w" and bidder: "\<not> bidderErr w"
    and ws: "dialWS w 0 = Some c" and sb: "subscribeHead w 0 = Some s"
  shows "startup w =
     Some (fst (readConfig w)
           @ [Authenticate (privateKeyHex cfg), NewBidderClient (bidderAddress cfg),
              Log Info ''connected to mev-commit client'']
           @ dialRPCIfRelay w cfg
           @ [DialWS (wsEndpoint cfg), Log Info ''(ws) geth client connected'', SubscribeNewHead],
           Some (cfg, \<lparr>wsClient = Some c, sub = Some s, err = None, wsDials = 1, subscriptions = 1\<rparr>))"
proof (cases "readConfig w")
  case (Pair evs0 c0)
  with cfg have c0: "c0 = Some cfg" by simp
  have dial: "connectWSClient (dialWS w) (wsEndpoint cfg) 0 = Some ([DialWS (wsEndpoint cfg)], (Some c, None), 1)"
    using ws by (simp add: connectWSClient.simps [of "dialWS w" "wsEndpoint cfg" 0])
  from Pair c0 auth bidder sb show ?thesis
    by (simp add: startup_def Let_def dial)
qed

text \<open>
  Claim C8. \<open>connectRPCClientWithRetries\<close> dials at most \<open>maxRetries\<close> times, each dial under
  the timeout it was given. After the failed dial of round \<open>i\<close> it warns and sleeps
  \<open>10 * 2^i\<close> (nanoseconds; the product fits an \<open>int64\<close> up to round 59). The first dial
  that succeeds ends the loop and its client is returned; when all \<open>maxRetries\<close> dials fail
  the failure is logged and nil is returned. The caller, \<open>main\<close> in relay mode with 5
  retries and 30 seconds, logs an error for a nil client and goes on: startup still
  reaches the event loop.
\<close>

theorem rpc_dialer:
  "(j < n \<and> (\<forall>i < j. dial i = None) \<and> dial j = Some c \<longrightarrow>
      connectRPCClientWithRetries ovf dial ep (int n) t =
        (concat (map (\<lambda>i. [DialRPC ep t, Log Warn ''failed to connect to RPC client, retrying...'',
                                 Sleep (backoff ovf i)]) [0..<j])
         @ [DialRPC ep t], Some c)) \<and>
   ((\<forall>i < n. dial i = None) \<longrightarrow>
      connectRPCClientWithRetries ovf dial ep (int n) t =
        (concat (map (\<lambda>i. [DialRPC ep t, Log Warn ''failed to connect to RPC client, retrying...'',
                                 Sleep (backoff ovf i)]) [0..<n])
         @ [Log Error ''failed to connect to RPC client after retries''], None)) \<and>
   count_list (fst (connectRPCClientWithRetries ovf dial ep m t)) (DialRPC ep t) \<le> nat m \<and>
   (i < 60 \<longrightarrow> sint (backoff ovf i) = 10 * 2 ^ i) \<and>
   (\<not> usePayload cfg \<and> (\<forall>i < 5. dialRPC w i = None) \<longrightarrow>
      dialRPCIfRelay w cfg =
        concat (map (\<lambda>i. [DialRPC (rpcEndpoint cfg) (30 * second),
                                Log Warn ''failed to connect to RPC client, retrying...'',
                                Sleep (backoff (floatOverflow w) i)]) [0..<5])
        @ [Log Error ''failed to connect to RPC client after retries'',
           Log Error ''failed to connect to RPC client'',
           Log Info ''(rpc) geth client connected'']) \<and>
   (snd (readConfig w) = Some cfg \<and> \<not> authErr w \<and> \<not> bidderErr w \<and>
    dialWS w 0 = Some wc \<and> subscribeHead w 0 = Some ws \<longrightarrow>
      startup w =
        Some (fst (readConfig w)
              @ [Authenticate (privateKeyHex cfg), NewBidderClient (bidderAddress cfg),
                 Log Info ''connected to mev-commit client'']
              @ dialRPCIfRelay w cfg
              @ [DialWS (wsEndpoint cfg), Log Info ''(ws) geth client connected'', SubscribeNewHead],
              Some (cfg, \<lparr>wsClient = Some wc, sub = Some ws, err = None, wsDials = 1,
                          subscriptions = 1\<rparr>)))"
proof (intro conjI impI)
  assume h: "j < n \<and> (\<forall>i < j. dial i = None) \<and> dial j = Some c"
  then have "rpcLoop ovf dial ep (int n) t 0 =
      before (concat (map (\<lambda>i. [DialRPC ep t, Log Warn ''failed to connect to RPC client, retrying...'',
                                 Sleep (backoff ovf i)]) [0..<j]))
        (rpcLoop ovf dial ep (int n) t j)"
    by (intro rpcLoop_failures) simp_all
  with h show "connectRPCClientWithRetries ovf dial ep (int n) t =
        (concat (map (\<lambda>i. [DialRPC ep t, Log Warn ''failed to connect to RPC client, retrying...'',
                                 Sleep (backoff ovf i)]) [0..<j])
         @ [DialRPC ep t], Some c)"
    by (simp add: connectRPCClientWithRetries_def rpcLoop_success before_def)
next
  assume h: "\<forall>i < n. dial i = None"
  then have "rpcLoop ovf dial ep (int n) t 0 =
      before (concat (map (\<lambda>i. [DialRPC ep t, Log Warn ''failed to connect to RPC client, retrying...'',
                                 Sleep (backoff ovf i)]) [0..<n]))
        (rpcLoop ovf dial ep (int n) t n)"
    by (intro rpcLoop_failures) simp_all
  then show "connectRPCClientWithRetries ovf dial ep (int n) t =
        (concat (map (\<lambda>i. [DialRPC ep t, Log Warn ''failed to connect to RPC client, retrying...'',
                                 Sleep (backoff ovf i)]) [0..<n])
         @ [Log Error ''failed to connect to RPC client after retries''], None)"
    by (simp add: connectRPCClientWithRetries_def rpcLoop_exhausted before_def)
next
  show "count_list (fst (connectRPCClientWithRetries ovf dial ep m t)) (DialRPC ep t) \<le> nat m"
    using rpcLoop_attempts [of ovf dial ep m t 0] by (simp add: connectRPCClientWithRetries_def)
next
  assume "i < 60"
  then show "sint (backoff ovf i) = 10 * 2 ^ i" by (rule sint_backoff)
next
  assume h: "\<not> usePayload cfg \<and> (\<forall>i < 5. dialRPC w i = None)"
  then have "rpcLoop (floatOverflow w) (dialRPC w) (rpcEndpoint cfg) (int 5) (30 * second) 0 =
      before (concat (map (\<lambda>i. [DialRPC (rpcEndpoint cfg) (30 * second),
                                Log Warn ''failed to connect to RPC client, retrying...'',
                                Sleep (backoff (floatOverflow w) i)]) [0..<5]))
        (rpcLoop (floatOverflow w) (dialRPC w) (rpcEndpoint cfg) (int 5) (30 * second) 5)"
    by (intro rpcLoop_failures) simp_all
  with h show "dialRPCIfRelay w cfg =
        concat (map (\<lambda>i. [DialRPC (rpcEndpoint cfg) (30 * second),
                                Log Warn ''failed to connect to RPC client, retrying...'',
                                Sleep (backoff (floatOverflow w) i)]) [0..<5])
        @ [Log Error ''failed to connect to RPC client after retries'',
           Log Error ''failed to connect to RPC client'',
           Log Info ''(rpc) geth client connected'']"
    by (simp add: dialRPCIfRelay_def connectRPCClientWithRetries_def rpcLoop_exhausted before_def Let_def)
next
  assume "snd (readConfig w) = Some cfg \<and> \<not> authErr w \<and> \<not> bidderErr w \<and>
    dialWS w 0 = Some wc \<and> subscribeHead w 0 = Some ws"
  then show "startup w =
        Some (fst (readConfig w)
              @ [Authenticate (privateKeyHex cfg), NewBidderClient (bidderAddress cfg),
                 Log Info ''connected to mev-commit client'']
              @ dialRPCIfRelay w cfg
              @ [DialWS (wsEndpoint cfg), Log Info ''(ws) geth client connected'', SubscribeNewHead],
              Some (cfg, \<lparr>wsClient = Some wc, sub = Some ws, err = None, wsDials = 1,
                          subscriptions = 1\<rparr>))"
    using startup_enters_loop by blast
qed

theorem rpc_dialer_witness:
  "connectRPCClientWithRetries noOverflow thirdDial ''http://rpc'' 5 (30 * second) =
     ([DialRPC ''http://rpc'' 30000000000,
       Log Warn ''failed to connect to RPC client, retrying...'', Sleep 10,
       DialRPC ''http://rpc'' 30000000000,
       Log Warn ''failed to connect to RPC client, retrying...'', Sleep 20,
       DialRPC ''http://rpc'' 30000000000], Some 7) \<and>
   connectRPCClientWithRetries noOverflow neverDials ''http://rpc'' 5 (30 * second) =
     ([DialRPC ''http://rpc'' 30000000000,
       Log Warn ''failed to connect to RPC client, retrying...'', Sleep 10,
       DialRPC ''http://rpc'' 30000000000,
       Log Warn ''failed to connect to RPC client, retrying...'', Sleep 20,
       DialRPC ''http://rpc'' 30000000000,
       Log Warn ''failed to connect to RPC client, retrying...'', Sleep 40,
       DialRPC ''http://rpc'' 30000000000,
       Log Warn ''failed to connect to RPC client, retrying...'', Sleep 80,
       DialRPC ''http://rpc'' 30000000000,
       Log Warn ''failed to connect to RPC client, retrying...'', Sleep 160,
       Log Error ''failed to connect to RPC client after retries''], None) \<and>
   sint (backoff noOverflow 4) = 160 \<and>
   snd (readConfig (world0 relayEnv)) = Some relayCfg \<and> \<not> usePayload relayCfg \<and>
   snd (the (startup (world0 relayEnv))) =
     Some (relayCfg, \<lparr>wsClient = Some 0, sub = Some 0, err = None, wsDials = 1, subscriptions = 1\<rparr>) \<and>
   Log Error ''failed to connect to RPC client'' \<in> set (fst (the (startup (world0 relayEnv))))"
proof -
  let ?w = "world0 relayEnv"
  have third: "(2::nat) < 5 \<and> (\<forall>i < 2. thirdDial i = None) \<and> thirdDial 2 = Some 7"
    by (simp add: thirdDial_def)
  have never: "\<forall>i < 5. neverDials i = None"
    by (simp add: neverDials_def)
  have relay: "\<not> usePayload relayCfg \<and> (\<forall>i < 5. dialRPC ?w i = None)"
    by (simp add: relayCfg_def payloadCfg_def world0_def neverDials_def)
  have ready: "snd (readConfig ?w) = Some relayCfg \<and> \<not> authErr ?w \<and> \<not> bidderErr ?w \<and>
      dialWS ?w 0 = Some 0 \<and> subscribeHead ?w 0 = Some 0"
    by (simp add: relay_readConfig) (simp add: world0_def alwaysDials_def alwaysSubscribes_def)
  have up: "[0..<5] = [0, 1, 2, 3, 4]" "[0..<2] = [0, 1]"
    by (simp_all add: upt_rec)
  from rpc_dialer [of 2 5 thirdDial 7 noOverflow "''http://rpc''" "30 * second" 5 4 relayCfg ?w 0 0]
    rpc_dialer [of 2 5 neverDials 7 noOverflow "''http://rpc''" "30 * second" 5 4 relayCfg ?w 0 0]
    third never relay ready
  show ?thesis
    by (simp add: up backoff_def pow2Duration_def second_def relay_readConfig)
qed

section \<open>The target block\<close>

lemma bidsOf_append: "bidsOf (xs @ ys) = bidsOf xs @ bidsOf ys"
  by (induction xs rule: bidsOf.induct) simp_all

lemma bundlesOf_append: "bundlesOf (xs @ ys) = bundlesOf xs @ bundlesOf ys"
  by (induction xs rule: bundlesOf.induct) simp_all

lemma bundlesOf_sendPreconfBid: "bundlesOf (fst (sendPreconfBid rw env input bn)) = []"
  by (simp add: sendPreconfBid_def Let_def split: reference.split option.split)

lemma spec_builders:
  "SelfETHTransfer n (Inr tx) a off = (Some tx, n + off, None)"
  "ExecuteBlobTransaction n (Inr tx) b off = (Some tx, n + off, None)"
  by (simp_all add: SelfETHTransfer_def ExecuteBlobTransaction_def)

lemma unat_target:
  assumes "n + unat (off :: uint64) < 2 ^ 63"
  shows "unat (of_nat n + off :: uint64) = n + unat off"
    and "sint (of_nat n + off :: int64) = int n + int (unat off)"
proof -
  have "(of_nat n + off :: uint64) = of_nat (n + unat off)"
    by simp
  also have "\<dots> = word_of_int (int (n + unat off))"
    by simp
  finally have w: "(of_nat n + off :: uint64) = word_of_int (int (n + unat off))" .
  have lo: "- (2 ^ 63) \<le> int (n + unat off)"
  proof -
    have "- (2 ^ 63) \<le> (0::int)" and "(0::int) \<le> int (n + unat off)" by simp_all
    then show ?thesis by (rule order_trans)
  qed
  have hi: "int (n + unat off) < 2 ^ 63"
    using assms by (metis of_nat_less_iff of_nat_numeral of_nat_power)
  from lo hi have "sint (word_of_int (int (n + unat off)) :: int64) = int (n + unat off)"
    by (rule sint_word_of_int64)
  with w show s: "sint (of_nat n + off :: int64) = int n + int (unat off)"
    by simp
  have eq: "(word_of_nat (n + unat off) :: uint64) = of_nat n + off"
    by simp
  have "n + unat off < 2 ^ LENGTH(64)"
    using assms by (rule less_trans) simp
  with eq show "unat (of_nat n + off :: uint64) = n + unat off"
    by (rule of_nat_inverse)
qed

text \<open>
  Claim C1, as amended. Against the builder of the spec, run on the head being processed:
  in a configured mode, when the builder returns a transaction and the head's number plus
  the offset is below \<open>2^63\<close>, the block number that comes with the candidate transaction
  is the head's number plus the offset, it is the one handed to the bundle relay in relay
  mode, and exactly one bid is submitted, whose target block, an \<open>int64\<close>, is that same
  number.
\<close>

theorem target_block:
  assumes mode: "ethTransfer cfg = ''true'' \<or> blob cfg = ''true''"
    and self: "selfTransfer env = SelfETHTransfer (of_nat (hdNumber h)) (Inr tx) (10 ^ 15) (offset cfg)"
    and blb: "blobTransaction env = ExecuteBlobTransaction (of_nat (hdNumber h)) (Inr tx) NUM_BLOBS (offset cfg)"
    and range: "hdNumber h + unat (offset cfg) < 2 ^ 63"
  shows "snd (construct cfg e env) = (Some tx, of_nat (hdNumber h) + offset cfg, None) \<and>
         unat (of_nat (hdNumber h) + offset cfg :: uint64) = hdNumber h + unat (offset cfg) \<and>
         map bidBlock (bidsOf (fst (onHead rw cfg e h env))) = [of_nat (hdNumber h) + offset cfg] \<and>
         sint (of_nat (hdNumber h) + offset cfg :: int64) = int (hdNumber h) + int (unat (offset cfg)) \<and>
         (\<not> usePayload cfg \<longrightarrow>
            bundlesOf (fst (onHead rw cfg e h env)) = [(Some tx, of_nat (hdNumber h) + offset cfg)])"
proof -
  let ?bn = "of_nat (hdNumber h) + offset cfg :: uint64"
  have c: "snd (construct cfg e env) = (Some tx, ?bn, None)"
    using mode self blb by (auto simp: construct_def spec_builders)
  have nb: "bidsOf (fst (construct cfg e env)) = []" "bundlesOf (fst (construct cfg e env)) = []"
    by (simp_all add: construct_def)
  have bids: "map bidBlock (bidsOf (fst (onHead rw cfg e h env))) = [?bn]"
    by (cases "usePayload cfg")
       (simp_all add: onHead_def Let_def c nb bidsOf_append bidsOf_sendPreconfBid
          sendPreconfBid_def [of rw "bidEnv env" "RefTx (Some tx)"])
  have relay: "bundlesOf (fst (onHead rw cfg e h env)) = [(Some tx, ?bn)]" if "\<not> usePayload cfg"
    using that by (simp add: onHead_def Let_def c nb bundlesOf_append bundlesOf_sendPreconfBid)
  from c bids relay unat_target [OF range] show ?thesis
    by simp
qed


text \<open>Head 100, offset 1, self-transfer in payload mode: the bid is for block 101.\<close>

lemma scenario_A:
  "onHead fixedWei payloadCfg None head100 (specBuilt head100 payloadCfg) =
     ([CallSelfETHTransfer 1000000000000000 1,
       Log Info ''Transaction sent successfully'', Log Info ''new block received'',
       RandSeed 1700000000000000000,
       Log Info ''sending bid with tx payload'',
       SendBid \<lparr>bidInput = Txs [tx1], bidAmount = ''500000000000000'', bidBlock = 101,
                decayStart = 1700000000000, decayEnd = 1700000036000\<rparr>,
       Log Info ''sent preconfirmation bid''], Returned, None)"
  by (simp add: onHead_def construct_def sendPreconfBid_def Let_def payloadCfg_def specBuilt_def
      spec_builders head100_def clock1_def fixedWei_def eval_defs)

theorem target_block_witness:
  "ethTransfer payloadCfg = ''true'' \<and>
   hdNumber head100 + unat (offset payloadCfg) < 2 ^ 63 \<and>
   snd (construct payloadCfg None (specBuilt head100 payloadCfg)) = (Some tx1, 101, None) \<and>
   map bidBlock (bidsOf (fst (onHead fixedWei payloadCfg None head100 (specBuilt head100 payloadCfg)))) = [101] \<and>
   sint (101 :: int64) = int (hdNumber head100) + int (unat (offset payloadCfg)) \<and>
   \<not> usePayload relayCfg \<and>
   bundlesOf (fst (onHead fixedWei relayCfg None head100 (specBuilt head100 relayCfg))) = [(Some tx1, 101)]"
proof -
  have mode: "ethTransfer payloadCfg = ''true'' \<or> blob payloadCfg = ''true''"
    "ethTransfer relayCfg = ''true'' \<or> blob relayCfg = ''true''"
    by (simp_all add: payloadCfg_def relayCfg_def)
  have range: "hdNumber head100 + unat (offset payloadCfg) < 2 ^ 63"
    "hdNumber head100 + unat (offset relayCfg) < 2 ^ 63"
    by (simp_all add: payloadCfg_def relayCfg_def head100_def)
  have st: "selfTransfer (specBuilt head100 cfg) =
      SelfETHTransfer (of_nat (hdNumber head100)) (Inr tx1) (10 ^ 15) (offset cfg)"
    and bl: "blobTransaction (specBuilt head100 cfg) =
      ExecuteBlobTransaction (of_nat (hdNumber head100)) (Inr tx1) NUM_BLOBS (offset cfg)" for cfg
    by (simp_all add: specBuilt_def)
  have vals: "(of_nat (hdNumber head100) + offset payloadCfg :: uint64) = 101"
    "(of_nat (hdNumber head100) + offset relayCfg :: uint64) = 101"
    "ethTransfer payloadCfg = ''true''" "\<not> usePayload relayCfg"
    by (simp_all add: payloadCfg_def relayCfg_def head100_def)
  from target_block [OF mode(1) st bl range(1), of None fixedWei]
    target_block [OF mode(2) st bl range(2), of None fixedWei] vals range(1)
  show ?thesis by simp
qed

text \<open>
  The claim as stated, for every offset, fails for the offset \<open>2^63\<close>, which
  \<open>parseUintEnvVar\<close> accepts: \<open>int64(blockNumber)\<close> is then negative, so the bid on head 100
  is not for block \<open>100 + 2^63\<close>.
\<close>

theorem target_block_counterexample:
  "parseUintEnvVar ''OFFSET'' ''9223372036854775808'' = Inr (offset farCfg) \<and>
   ethTransfer farCfg = ''true'' \<and>
   map bidBlock (bidsOf (fst (onHead fixedWei farCfg None head100 (specBuilt head100 farCfg)))) =
     [9223372036854775908] \<and>
   sint (9223372036854775908 :: int64) = - 9223372036854775708 \<and>
   int (hdNumber head100) + int (unat (offset farCfg)) = 9223372036854775908"
  by (simp add: parseUintEnvVar_def isDigit_def decimalValue_def digitValue_def farCfg_def
      onHead_def construct_def sendPreconfBid_def Let_def payloadCfg_def specBuilt_def
      spec_builders head100_def)

end
